theory Spec2Isabelle
  imports Complex_Main
begin

section \<open>JavaScript numbers\<close>

text \<open>
  The component computes with JavaScript numbers. They are modelled as the reals
  extended by the two infinities and NaN, so that a division by zero is a value of the
  model, as it is in the program. Finite arithmetic is exact (rounding and overflow of
  finite values are not modelled) and zero is unsigned, read as \<open>+0\<close>: that is the zero
  a difference \<open>a - a\<close> of equal finite numbers produces.
\<close>

datatype jsnum = Num real | PosInf | NegInf | NaN

text \<open>The infinity with the sign of \<open>s\<close>; NaN when \<open>s\<close> is zero (\<open>Infinity * 0\<close>, \<open>0 / 0\<close>).\<close>

definition inf_of_sign :: "real \<Rightarrow> jsnum" where
  "inf_of_sign s = (if 0 < s then PosInf else if s < 0 then NegInf else NaN)"

fun jadd :: "jsnum \<Rightarrow> jsnum \<Rightarrow> jsnum" where
  "jadd (Num a) (Num b) = Num (a + b)"
| "jadd NaN _ = NaN"
| "jadd _ NaN = NaN"
| "jadd PosInf NegInf = NaN"
| "jadd NegInf PosInf = NaN"
| "jadd PosInf _ = PosInf"
| "jadd _ PosInf = PosInf"
| "jadd NegInf _ = NegInf"
| "jadd _ NegInf = NegInf"

fun jsub :: "jsnum \<Rightarrow> jsnum \<Rightarrow> jsnum" where
  "jsub (Num a) (Num b) = Num (a - b)"
| "jsub NaN _ = NaN"
| "jsub _ NaN = NaN"
| "jsub PosInf PosInf = NaN"
| "jsub NegInf NegInf = NaN"
| "jsub PosInf _ = PosInf"
| "jsub _ PosInf = NegInf"
| "jsub NegInf _ = NegInf"
| "jsub _ NegInf = PosInf"

fun jmul :: "jsnum \<Rightarrow> jsnum \<Rightarrow> jsnum" where
  "jmul (Num a) (Num b) = Num (a * b)"
| "jmul NaN _ = NaN"
| "jmul _ NaN = NaN"
| "jmul PosInf (Num b) = inf_of_sign b"
| "jmul NegInf (Num b) = inf_of_sign (- b)"
| "jmul (Num a) PosInf = inf_of_sign a"
| "jmul (Num a) NegInf = inf_of_sign (- a)"
| "jmul PosInf PosInf = PosInf"
| "jmul NegInf NegInf = PosInf"
| "jmul PosInf NegInf = NegInf"
| "jmul NegInf PosInf = NegInf"

text \<open>
  Division: a finite number divided by zero is the infinity of its sign, \<open>0 / 0\<close> is
  NaN, a finite number divided by an infinity is zero.
\<close>

fun jdiv :: "jsnum \<Rightarrow> jsnum \<Rightarrow> jsnum" where
  "jdiv (Num a) (Num b) = (if b = 0 then inf_of_sign a else Num (a / b))"
| "jdiv NaN _ = NaN"
| "jdiv _ NaN = NaN"
| "jdiv (Num a) PosInf = Num 0"
| "jdiv (Num a) NegInf = Num 0"
| "jdiv PosInf (Num b) = (if b < 0 then NegInf else PosInf)"
| "jdiv NegInf (Num b) = (if b < 0 then PosInf else NegInf)"
| "jdiv PosInf PosInf = NaN"
| "jdiv PosInf NegInf = NaN"
| "jdiv NegInf PosInf = NaN"
| "jdiv NegInf NegInf = NaN"

text \<open>\<open>Math.max\<close> and \<open>Math.min\<close> of two numbers: NaN when either is NaN.\<close>

fun Math_max :: "jsnum \<Rightarrow> jsnum \<Rightarrow> jsnum" where
  "Math_max NaN _ = NaN"
| "Math_max _ NaN = NaN"
| "Math_max PosInf _ = PosInf"
| "Math_max _ PosInf = PosInf"
| "Math_max NegInf b = b"
| "Math_max a NegInf = a"
| "Math_max (Num a) (Num b) = Num (max a b)"

fun Math_min :: "jsnum \<Rightarrow> jsnum \<Rightarrow> jsnum" where
  "Math_min NaN _ = NaN"
| "Math_min _ NaN = NaN"
| "Math_min NegInf _ = NegInf"
| "Math_min _ NegInf = NegInf"
| "Math_min PosInf b = b"
| "Math_min a PosInf = a"
| "Math_min (Num a) (Num b) = Num (min a b)"

text \<open>The test \<open>v !== 0\<close> (and \<open>v != 0\<close>) on a number: NaN differs from zero.\<close>

fun neq_zero :: "jsnum \<Rightarrow> bool" where
  "neq_zero (Num a) = (a \<noteq> 0)"
| "neq_zero _ = True"

section \<open>Data model\<close>

text \<open>
  Exceptions are values. \<open>TypeError\<close> is what reading a property of \<open>undefined\<close>
  raises; \<open>EvalError\<close> stands for anything the global \<open>eval\<close> throws.
\<close>

datatype exn = TypeError | EvalError string

text \<open>Configuration values that are not restricted to one type by the schema.\<close>

datatype jsval = VUndefined | VNull | VBool bool | VNum jsnum | VStr string | VFn nat | VObj nat

record vector3 =
  vec_x :: jsnum
  vec_y :: jsnum
  vec_z :: jsnum

text \<open>
  The bounding box the engine reports: for each axis the array \<open>[min, max]\<close>, a pair
  whose first component is index 0 and whose second is index 1.
\<close>

record graphBbox =
  bbox_x :: "jsnum \<times> jsnum"
  bbox_y :: "jsnum \<times> jsnum"
  bbox_z :: "jsnum \<times> jsnum"

text \<open>A quaternion \<open>(x, y, z, w)\<close>.\<close>

type_synonym quaternion = "real \<times> real \<times> real \<times> real"

fun quat_invert :: "quaternion \<Rightarrow> quaternion" where
  "quat_invert (qx, qy, qz, qw) = (- qx, - qy, - qz, qw)"

fun quat_multiply :: "quaternion \<Rightarrow> quaternion \<Rightarrow> quaternion" where
  "quat_multiply (ax, ay, az, aw) (bx, by, bz, bw) =
     (ax * bw + aw * bx + ay * bz - az * by,
      ay * bw + aw * by + az * bx - ax * bz,
      az * bw + aw * bz + ax * by - ay * bx,
      aw * bw - ax * bx - ay * by - az * bz)"

type_synonym object3D = nat

datatype intersection = Hit object3D

record interact_event =
  evt_object3D :: object3D
  evt_target :: object3D

text \<open>
  The label application \<open>htmlComponents["GraphLabel"](titleScriptData)\<close> of a node,
  with the opacity of its content mesh once that has been set.
\<close>

record graphLabel =
  label_text :: string
  label_color :: string
  label_size :: jsnum
  label_opacity :: "jsnum option"

datatype child = Placeholder | WebLayer3D

text \<open>The container \<open>ret\<close> that \<open>makeHTMLText\<close> returns for a node.\<close>

record threeObj =
  obj_children :: "child list"
  obj_scale :: vector3
  obj_quaternion :: quaternion

text \<open>
  A node of the graph data, with the fields the component reads and writes:
  \<open>__threeObj\<close>, \<open>_box\<close> (the placeholder mesh, here its \<open>rotation.z\<close>) and
  \<open>htmlGenerator\<close>.
\<close>

record node =
  node_id :: string
  node_name :: string
  node_color :: string
  node_threeObj :: "threeObj option"
  node_box :: "jsnum option"
  htmlGenerator :: "graphLabel option"

text \<open>
  The \<open>ThreeForceGraph\<close> object. The component reads and writes its scale, the
  strengths of its named forces, its properties, its graph data and its callbacks; the
  state of the layout engine itself is the opaque field \<open>engine\<close>.
\<close>

record 'e forceGraph =
  scale :: vector3
  forces :: "string \<rightharpoonup> jsnum"
  fg_props :: "string \<rightharpoonup> jsval"
  nodeThreeObject_set :: bool
  nodes :: "node list"
  onFinishUpdate_set :: bool
  onEngineStop_set :: bool
  engine :: 'e

text \<open>The component's \<open>data\<close>: the schema's properties, parsed.\<close>

record config =
  data_name :: string
  data_isNetworked :: bool
  data_isInteractive :: bool
  data_isDraggable :: bool
  height :: jsnum
  width :: jsnum
  textSize :: jsnum
  jsonUrl :: string
  chargeForce :: jsnum
  xForce :: jsnum
  yForce :: jsnum
  zForce :: jsnum
  nodeId :: string
  nodeVal :: jsval
  nodeColor :: jsval
  nodeAutoColorBy :: jsval
  nodeOpacity :: jsnum
  linkSource :: string
  linkTarget :: string
  linkVisibility :: bool
  linkColor :: jsval
  linkAutoColorBy :: jsval
  linkOpacity :: jsnum
  linkWidth :: jsval

text \<open>
  The calls a handler makes to its collaborators, in order, and the invocations of
  \<open>scaleToFit\<close>: the trace by which a frame's operations are observed.
\<close>

datatype call =
    ConsoleWarn string
  | Emit string
  | GetInteractors
  | GetIntersection object3D
  | TickFrame
  | CameraUpdateMatrices
  | HtmlTick string real
  | TraverseVisible
  | ScaleToFit
  | UpdateMatrix
  | ReheatSimulation

text \<open>
  The component instance. \<open>netEntity\<close> tells whether the networked entity exists,
  \<open>stateSync\<close> holds the \<open>changed\<close> flag of the state-sync object when there is one,
  \<open>isDragging\<close> is \<open>handleInteraction.isDragging\<close>, and \<open>container_graph\<close> tells
  whether the container holds the object \<open>forcegraphGroup\<close>.
\<close>

record 'e component =
  data :: config
  running :: bool
  forceGraph :: "'e forceGraph option"
  isInteractive :: bool
  isNetworked :: bool
  isDraggable :: bool
  clickEvent :: "interact_event option"
  clickIntersection :: "intersection option"
  fullName :: "string option"
  netEntity :: bool
  stateSync :: "bool option"
  isDragging :: bool
  cameraQuaternion :: quaternion
  nodeQuaternion :: quaternion
  container_graph :: bool
  calls :: "call list"

text \<open>
  The collaborators whose code is outside the component: the layout engine
  (three-forcegraph, d3-force-3d), the interaction helper and the scene.
  \<open>tickFrame\<close> returns the engine after one frame and whether the engine stopped in
  that frame, in which case it calls the handler registered with \<open>onEngineStop\<close>.
  \<open>d3ForceX\<close>, \<open>d3ForceY\<close> and \<open>d3ForceZ\<close> are the strengths of freshly made axis
  forces. \<open>getInteractors\<close> are the interactors that point at the container in the
  current frame, \<open>getIntersection\<close> is the intersection test of the interaction helper,
  and the two quaternions are the world orientations of the graph and of the camera.
\<close>

record 'e host =
  getGraphBbox :: "'e forceGraph \<Rightarrow> graphBbox option"
  tickFrame :: "'e forceGraph \<Rightarrow> 'e forceGraph \<times> bool"
  engine_d3ReheatSimulation :: "'e forceGraph \<Rightarrow> 'e forceGraph"
  new_ThreeForceGraph :: "'e forceGraph"
  d3ForceX :: jsnum
  d3ForceY :: jsnum
  d3ForceZ :: jsnum
  getInteractors :: "object3D list"
  getIntersection :: "object3D \<Rightarrow> object3D list \<Rightarrow> intersection option"
  getWorldQuaternion :: "'e forceGraph \<Rightarrow> quaternion"
  cameraWorldQuaternion :: quaternion

section \<open>Fitting the graph to the configured size\<close>

text \<open>
  \<open>scaleToFit\<close> (force-graph.js, lines 220 to 238). Reading \<open>this.forceGraph\<close> when
  it is undefined raises a TypeError. With no bounding box nothing is changed. The trace
  records the invocation, and the call of \<open>updateMatrix\<close> when the scale has been set.
\<close>

definition scaleToFit :: "'e host \<Rightarrow> 'e component \<Rightarrow> exn + 'e component" where
  "scaleToFit H c0 =
     (let c = c0\<lparr>calls := calls c0 @ [ScaleToFit]\<rparr> in
      case forceGraph c of
        None \<Rightarrow> Inl TypeError
      | Some fg \<Rightarrow>
          (case getGraphBbox H fg of
             None \<Rightarrow> Inr c
           | Some bbox \<Rightarrow>
               (let sizeH = jsub (snd (bbox_y bbox)) (fst (bbox_y bbox));
                    sizeW = jsub (snd (bbox_x bbox)) (fst (bbox_x bbox));
                    sizeW = Math_max sizeW (jsub (snd (bbox_z bbox)) (fst (bbox_z bbox)));
                    sizeH = jdiv (height (data c)) sizeH;
                    sizeW = jdiv (width (data c)) sizeW;
                    s = Math_min sizeH sizeW;
                    s = jmul s (vec_x (scale fg))
                in Inr (c\<lparr>forceGraph :=
                            Some (fg\<lparr>scale := \<lparr>vec_x = s, vec_y = s, vec_z = s\<rparr>\<rparr>),
                          calls := calls c @ [UpdateMatrix]\<rparr>))))"

section \<open>Sequencing handlers that can raise\<close>

definition bind_exn :: "exn + 'a \<Rightarrow> ('a \<Rightarrow> exn + 'b) \<Rightarrow> exn + 'b" where
  "bind_exn r f = (case r of Inl e \<Rightarrow> Inl e | Inr a \<Rightarrow> f a)"

section \<open>Initialisation and the engine's callbacks\<close>

text \<open>
  \<open>init\<close> (lines 245 to 308). The calls \<open>startInit\<close> and \<open>finishInit\<close> belong to
  the interaction template and are not part of the model, nor are the objects \<open>state\<close>
  and \<open>sharedData\<close>, which are created empty and never filled. The handler given to
  \<open>onFinishUpdate\<close> is registered here; it is \<open>onFinishUpdate_handler\<close> below.
\<close>

definition init :: "'e host \<Rightarrow> 'e component \<Rightarrow> 'e component" where
  "init H c =
     (let fg = (case forceGraph c of None \<Rightarrow> new_ThreeForceGraph H | Some g \<Rightarrow> g);
          fg = fg\<lparr>onFinishUpdate_set := True\<rparr>;
          fg = fg\<lparr>forces := (forces fg)(''x'' \<mapsto> d3ForceX H)\<rparr>;
          fg = fg\<lparr>forces := (forces fg)(''y'' \<mapsto> d3ForceY H)\<rparr>;
          fg = fg\<lparr>forces := (forces fg)(''z'' \<mapsto> d3ForceZ H)\<rparr>
      in c\<lparr>running := False,
            forceGraph := Some fg,
            isInteractive := data_isInteractive (data c),
            isNetworked := data_isNetworked (data c),
            isDraggable := data_isDraggable (data c),
            clickEvent := None,
            clickIntersection := None,
            fullName := (if data_name (data c) \<noteq> [] then Some (data_name (data c))
                         else fullName c)\<rparr>)"

text \<open>
  The handler registered with \<open>onEngineStop\<close> (lines 264 to 268): the flag is cleared,
  the graph is fitted, the portals are told.
\<close>

definition onEngineStop_handler :: "'e host \<Rightarrow> 'e component \<Rightarrow> exn + 'e component" where
  "onEngineStop_handler H c =
     bind_exn (scaleToFit H (c\<lparr>running := False\<rparr>))
       (\<lambda>c'. Inr (c'\<lparr>calls := calls c' @ [Emit ''updatePortals'']\<rparr>))"

text \<open>
  The handler registered with \<open>onFinishUpdate\<close> (lines 258 to 281), which the engine
  calls when a graph has been built. It registers the engine-stop handler; the handler
  it registers with \<open>onEngineTick\<close> has an empty body (its assignment to the flag is
  commented out in the source) and is not modelled.
\<close>

definition onFinishUpdate_handler :: "'e component \<Rightarrow> exn + 'e component" where
  "onFinishUpdate_handler c =
     (let c1 = (if \<not> container_graph c then c\<lparr>container_graph := True\<rparr> else c);
          c2 = c1\<lparr>running := True\<rparr>
      in case forceGraph c2 of
           None \<Rightarrow> Inl TypeError
         | Some fg \<Rightarrow> Inr (c2\<lparr>forceGraph := Some (fg\<lparr>onEngineStop_set := True\<rparr>)\<rparr>))"

text \<open>\<open>d3ReheatSimulation\<close> (lines 210 to 213).\<close>

definition d3ReheatSimulation :: "'e host \<Rightarrow> 'e component \<Rightarrow> 'e component" where
  "d3ReheatSimulation H c =
     (case forceGraph c of
        None \<Rightarrow> c
      | Some fg \<Rightarrow> c\<lparr>forceGraph := Some (engine_d3ReheatSimulation H fg),
                      calls := calls c @ [ReheatSimulation]\<rparr>)"

section \<open>Configuration updates\<close>

definition fgProps :: "string list" where
  "fgProps =
     [''jsonUrl'', ''nodeId'', ''nodeVal'', ''nodeColor'', ''nodeAutoColorBy'',
      ''nodeOpacity'', ''linkSource'', ''linkTarget'', ''linkVisibility'', ''linkColor'',
      ''linkAutoColorBy'', ''linkOpacity'', ''linkWidth'']"

text \<open>\<open>elData[p]\<close> for the forwarded properties.\<close>

definition elData_get :: "config \<Rightarrow> string \<Rightarrow> jsval" where
  "elData_get d p =
     (if p = ''jsonUrl'' then VStr (jsonUrl d)
      else if p = ''nodeId'' then VStr (nodeId d)
      else if p = ''nodeVal'' then nodeVal d
      else if p = ''nodeColor'' then nodeColor d
      else if p = ''nodeAutoColorBy'' then nodeAutoColorBy d
      else if p = ''nodeOpacity'' then VNum (nodeOpacity d)
      else if p = ''linkSource'' then VStr (linkSource d)
      else if p = ''linkTarget'' then VStr (linkTarget d)
      else if p = ''linkVisibility'' then VBool (linkVisibility d)
      else if p = ''linkColor'' then linkColor d
      else if p = ''linkAutoColorBy'' then linkAutoColorBy d
      else if p = ''linkOpacity'' then VNum (linkOpacity d)
      else if p = ''linkWidth'' then linkWidth d
      else VUndefined)"

text \<open>Strict inequality \<open>a !== b\<close>: NaN differs from everything.\<close>

definition strict_neq :: "jsval \<Rightarrow> jsval \<Rightarrow> bool" where
  "strict_neq a b = (a = VNum NaN \<or> b = VNum NaN \<or> a \<noteq> b)"

text \<open>
  \<open>p in diff\<close>, where \<open>diff = AFRAME.utils.diff(elData, oldData)\<close> holds the keys
  whose values differ. The old data of the first update is the empty object, written
  \<open>None\<close>.
\<close>

definition in_diff :: "config \<Rightarrow> config option \<Rightarrow> string \<Rightarrow> bool" where
  "in_diff d oldData p =
     (case oldData of
        None \<Rightarrow> True
      | Some od \<Rightarrow> strict_neq (elData_get d p) (elData_get od p))"

text \<open>The body of the \<open>forEach\<close> over the changed properties (lines 389 to 395).\<close>

definition forwardProp :: "string \<Rightarrow> config \<times> 'e forceGraph \<Rightarrow> config \<times> 'e forceGraph" where
  "forwardProp p st =
     (case st of (d, fg) \<Rightarrow>
        (let d1 = (if p = ''jsonUrl''
                   then d\<lparr>jsonUrl :=
                          ''https://resources.realitymedia.digital/data/forcegraph/'' @ jsonUrl d\<rparr>
                   else d);
             v = elData_get d1 p
         in (d1, fg\<lparr>fg_props := (fg_props fg)(p \<mapsto> (if v \<noteq> VStr [] then v else VNull))\<rparr>)))"

text \<open>
  \<open>d3Force(name).strength(v)\<close>: the strength of an installed force is replaced; when no
  force of that name is installed, \<open>d3Force(name)\<close> is undefined and the call raises.
\<close>

definition set_strength :: "string \<Rightarrow> jsnum \<Rightarrow> 'e forceGraph \<Rightarrow> exn + 'e forceGraph" where
  "set_strength name v fg =
     (case forces fg name of
        None \<Rightarrow> Inl TypeError
      | Some old \<Rightarrow> Inr (fg\<lparr>forces := (forces fg)(name \<mapsto> v)\<rparr>))"

text \<open>\<open>update\<close> (lines 366 to 412).\<close>

definition update :: "config option \<Rightarrow> 'e component \<Rightarrow> exn + 'e component" where
  "update oldData c =
     (case forceGraph c of
        None \<Rightarrow> Inl TypeError
      | Some fg \<Rightarrow>
          (case fold forwardProp (filter (in_diff (data c) oldData) fgProps) (data c, fg) of
             (d, fg1) \<Rightarrow>
               bind_exn (if neq_zero (chargeForce d)
                         then set_strength ''charge'' (chargeForce d)
                                (fg1\<lparr>nodeThreeObject_set := True\<rparr>)
                         else Inr (fg1\<lparr>nodeThreeObject_set := True\<rparr>)) (\<lambda>fg2.
               bind_exn (if neq_zero (xForce d) then set_strength ''x'' (xForce d) fg2
                         else Inr fg2) (\<lambda>fg3.
               bind_exn (if neq_zero (yForce d) then set_strength ''y'' (yForce d) fg3
                         else Inr fg3) (\<lambda>fg4.
               bind_exn (if neq_zero (zForce d) then set_strength ''z'' (zForce d) fg4
                         else Inr fg4) (\<lambda>fg5.
               Inr (c\<lparr>data := d, forceGraph := Some fg5\<rparr>)))))))"

text \<open>
  Modelled from the spec: the engine's simulation step is code of d3-force-3d and is not
  in the repository. The spec describes "independent per-axis centering forces pulling
  every node toward the axis origin with configurable strength (zero = disabled)": the
  impulse such a force adds to a node's velocity along its axis in one step, for the
  node's coordinate \<open>pos\<close> on that axis and the step's cooling factor \<open>alpha\<close>.
\<close>

definition axisImpulse :: "jsnum \<Rightarrow> jsnum \<Rightarrow> jsnum \<Rightarrow> jsnum" where
  "axisImpulse strength pos alpha = jmul (jmul (jsub (Num 0) pos) strength) alpha"

section \<open>Node content\<close>

text \<open>
  \<open>makeHTMLText\<close> (lines 324 to 361): the container with the placeholder as its child,
  and the node with its placeholder and its label application. The mesh is new, so its
  rotation is zero.
\<close>

definition makeHTMLText :: "'e component \<Rightarrow> node \<Rightarrow> threeObj \<times> node" where
  "makeHTMLText c n =
     (let n1 = n\<lparr>node_box := Some (Num 0)\<rparr>;
          n2 = n1\<lparr>htmlGenerator :=
                     Some \<lparr>label_text = node_name n1, label_color = node_color n1,
                           label_size = textSize (data c), label_opacity = None\<rparr>\<rparr>
      in (\<lparr>obj_children = [Placeholder],
           obj_scale = \<lparr>vec_x = Num 150, vec_y = Num 150, vec_z = Num 150\<rparr>,
           obj_quaternion = (0, 0, 0, 1)\<rparr>, n2))"

text \<open>
  The continuation of \<open>waitForReady()\<close> (lines 353 to 358), on the container and the
  node of the call that started it.
\<close>

definition waitForReady_then :: "'e component \<Rightarrow> threeObj \<times> node \<Rightarrow> threeObj \<times> node" where
  "waitForReady_then c st =
     (case st of (ret, n) \<Rightarrow>
        (let n1 = n\<lparr>htmlGenerator :=
                      map_option (\<lambda>g. g\<lparr>label_opacity := Some (nodeOpacity (data c))\<rparr>)
                        (htmlGenerator n)\<rparr>;
             ret1 = ret\<lparr>obj_children := obj_children ret @ [WebLayer3D]\<rparr>;
             ret2 = (case node_box n1 of
                       None \<Rightarrow> ret1
                     | Some r \<Rightarrow> ret1\<lparr>obj_children := remove1 Placeholder (obj_children ret1)\<rparr>)
         in (ret2, n1\<lparr>node_box := None\<rparr>)))"

text \<open>The body of the \<open>forEach\<close> over the nodes in \<open>tick\<close> (lines 608 to 624).\<close>

definition tickNode :: "quaternion \<Rightarrow> real \<Rightarrow> node \<Rightarrow> node \<times> call list" where
  "tickNode q time n =
     (let n1 = (case node_threeObj n of
                  None \<Rightarrow> n
                | Some ob \<Rightarrow> n\<lparr>node_threeObj := Some (ob\<lparr>obj_quaternion := q\<rparr>)\<rparr>);
          n2 = (case node_box n1 of
                  None \<Rightarrow> n1
                | Some r \<Rightarrow> n1\<lparr>node_box := Some (jadd r (Num (3 / 100)))\<rparr>)
      in (n2, case htmlGenerator n2 of
                None \<Rightarrow> []
              | Some g \<Rightarrow> [HtmlTick (node_id n2) time]))"

fun forEach_node :: "quaternion \<Rightarrow> real \<Rightarrow> node list \<Rightarrow> node list \<times> call list" where
  "forEach_node q time [] = ([], [])"
| "forEach_node q time (n # ns) =
     (case tickNode q time n of
        (n', cs) \<Rightarrow> (case forEach_node q time ns of (ns', cs') \<Rightarrow> (n' # ns', cs @ cs')))"

section \<open>Interaction and the frame tick\<close>

text \<open>\<open>clicked\<close> (lines 428 to 443).\<close>

definition clicked :: "'e host \<Rightarrow> interact_event \<Rightarrow> 'e component \<Rightarrow> 'e component" where
  "clicked H evt c =
     (let c1 = c\<lparr>clickIntersection := getIntersection H (evt_object3D evt) [evt_target evt]\<rparr>;
          c2 = c1\<lparr>clickEvent := Some evt\<rparr>
      in if clickIntersection c2 = None
         then c2\<lparr>calls := calls c2 @ [ConsoleWarn ''click didn't hit anything; shouldn't happen'']\<rparr>
         else c2)"

text \<open>
  The first part of \<open>tick\<close> (lines 508 to 573): nothing is done while dragging,
  otherwise every interactor is tested against the container's children.
\<close>

definition interaction_phase :: "'e host \<Rightarrow> 'e component \<Rightarrow> 'e component" where
  "interaction_phase H c =
     (if isInteractive c then
        (if isDraggable c \<and> isDragging c then c
         else c\<lparr>calls := calls c @ GetInteractors # map GetIntersection (getInteractors H)\<rparr>)
      else c)"

text \<open>
  The last part of \<open>tick\<close> (lines 599 to 631): the orientation that turns the nodes
  towards the camera is computed, every node is visited, every visible object is marked,
  and the graph is fitted if the component is running.
\<close>

definition render_phase :: "'e host \<Rightarrow> real \<Rightarrow> 'e component \<Rightarrow> exn + 'e component" where
  "render_phase H time c =
     (case forceGraph c of
        None \<Rightarrow> Inl TypeError
      | Some fg \<Rightarrow>
          (let camQ = cameraWorldQuaternion H;
               nq = quat_multiply (quat_invert (getWorldQuaternion H fg)) camQ
           in case forEach_node nq time (nodes fg) of
                (ns, cs) \<Rightarrow>
                  (let c1 = c\<lparr>cameraQuaternion := camQ,
                              nodeQuaternion := nq,
                              forceGraph := Some (fg\<lparr>nodes := ns\<rparr>),
                              calls := calls c @ [CameraUpdateMatrices] @ cs
                                       @ [TraverseVisible]\<rparr>
                   in if running c1 then scaleToFit H c1 else Inr c1)))"

text \<open>
  \<open>tick\<close> (lines 503 to 632): the interaction phase, the networking test (lines 575 to
  594), the engine's frame (line 597) and the last part. When the engine stops during
  \<open>tickFrame\<close> it calls the registered engine-stop handler before \<open>tickFrame\<close>
  returns.
\<close>

definition tick :: "'e host \<Rightarrow> real \<Rightarrow> 'e component \<Rightarrow> exn + 'e component" where
  "tick H time c0 =
     (let c1 = interaction_phase H c0 in
      if isNetworked c1 \<and> (\<not> netEntity c1 \<or> stateSync c1 = None) then Inr c1
      else
        (let c2 = (if isNetworked c1 \<and> stateSync c1 = Some True
                   then c1\<lparr>stateSync := Some False\<rparr> else c1)
         in case forceGraph c2 of
              None \<Rightarrow> Inl TypeError
            | Some fg \<Rightarrow>
                (case tickFrame H fg of
                   (fg1, stopped) \<Rightarrow>
                     (let c3 = c2\<lparr>forceGraph := Some fg1, calls := calls c2 @ [TickFrame]\<rparr>
                      in bind_exn
                           (if stopped \<and> onEngineStop_set fg
                            then onEngineStop_handler H c3 else Inr c3)
                           (render_phase H time)))))"

section \<open>Events\<close>

text \<open>
  \<open>update\<close> sets the engine's \<open>nodeThreeObject\<close> on every call (line 397). Setting a
  property of the engine schedules a digest of the graph, at whose end the engine calls
  the handler registered with \<open>onFinishUpdate\<close>. \<open>engine_finishUpdate\<close> is that
  call, as it reaches the component.
\<close>

definition engine_finishUpdate :: "'e component \<Rightarrow> exn + 'e component" where
  "engine_finishUpdate c =
     (case forceGraph c of
        None \<Rightarrow> Inr c
      | Some fg \<Rightarrow> if onFinishUpdate_set fg then onFinishUpdate_handler c else Inr c)"

text \<open>
  What can happen to a component after \<open>init\<close>: the engine finishes building a graph
  (its data has arrived) and calls the finish-update handler, someone calls
  \<open>d3ReheatSimulation\<close>, a frame is rendered, the entity is clicked, or the
  configuration changes: \<open>update\<close> is called with the former data, and the digest it
  schedules ends with the call of the finish-update handler before the next event.
\<close>

datatype event =
    FinishUpdate
  | Reheat
  | Frame real
  | Click interact_event
  | Update config

definition fire :: "'e host \<Rightarrow> event \<Rightarrow> 'e component \<Rightarrow> exn + 'e component" where
  "fire H ev c =
     (case ev of
        FinishUpdate \<Rightarrow> engine_finishUpdate c
      | Reheat \<Rightarrow> Inr (d3ReheatSimulation H c)
      | Frame time \<Rightarrow> tick H time c
      | Click evt \<Rightarrow> Inr (clicked H evt c)
      | Update d \<Rightarrow> bind_exn (update (Some (data c)) (c\<lparr>data := d\<rparr>)) engine_finishUpdate)"

fun run :: "'e host \<Rightarrow> event list \<Rightarrow> 'e component \<Rightarrow> exn + 'e component" where
  "run H [] c = Inr c"
| "run H (ev # evs) c = bind_exn (fire H ev c) (run H evs)"


section \<open>The life of a node's content\<close>

text \<open>
  What happens to the content of one node: the engine makes the node's object by calling
  the function registered with \<open>nodeThreeObject\<close>, which is \<open>makeHTMLText\<close>, and keeps
  the container it returns as the node's \<open>__threeObj\<close>; the label application of the
  node's current container becomes ready and the continuation of \<open>waitForReady\<close> runs;
  a frame visits the node.
\<close>

datatype node_event = Build | Ready | Visit quaternion real

definition node_step :: "'e component \<Rightarrow> node_event \<Rightarrow> node \<Rightarrow> node" where
  "node_step c ev n =
     (case ev of
        Build \<Rightarrow>
          (case makeHTMLText c n of (ret, n1) \<Rightarrow> n1\<lparr>node_threeObj := Some ret\<rparr>)
      | Ready \<Rightarrow>
          (case node_threeObj n of
             None \<Rightarrow> n
           | Some ret \<Rightarrow>
               (case waitForReady_then c (ret, n) of
                  (ret1, n1) \<Rightarrow> n1\<lparr>node_threeObj := Some ret1\<rparr>))
      | Visit q time \<Rightarrow> fst (tickNode q time n))"

text \<open>
  The number of transitions from placeholder to label along a sequence of events: the
  steps before which the node has a placeholder and after which it has none.
\<close>

fun transitions :: "'e component \<Rightarrow> node_event list \<Rightarrow> node \<Rightarrow> nat" where
  "transitions c [] n = 0"
| "transitions c (ev # evs) n =
     (if node_box n \<noteq> None \<and> node_box (node_step c ev n) = None then 1 else 0)
     + transitions c evs (node_step c ev n)"

text \<open>The entries of the trace that are refresh ticks of label applications.\<close>

fun is_HtmlTick :: "call \<Rightarrow> bool" where
  "is_HtmlTick (HtmlTick i time) = True"
| "is_HtmlTick other = False"

section \<open>Parsing accessors\<close>







section \<open>The fitting rule in the words of the specification\<close>

text \<open>
  The specification's rule for the rescaling multiplier, over the reals: \<open>sizeH\<close> is the
  vertical extent, \<open>sizeW\<close> the larger of the two horizontal extents, and the factor is
  the smaller of \<open>targetHeight / sizeH\<close> and \<open>targetWidth / sizeW\<close>.
\<close>

definition spec_scaleFactor :: "real \<Rightarrow> real \<Rightarrow> real \<Rightarrow> real \<Rightarrow> real \<Rightarrow> real" where
  "spec_scaleFactor targetHeight targetWidth extentX extentY extentZ =
     (let sizeH = extentY; sizeW = max extentX extentZ
      in min (targetHeight / sizeH) (targetWidth / sizeW))"

text \<open>
  The multiplier \<open>scaleToFit\<close> computes from a bounding box before it multiplies it
  with the current scale (the value of \<open>scale\<close> at line 232).
\<close>

definition fit_factor :: "config \<Rightarrow> graphBbox \<Rightarrow> jsnum" where
  "fit_factor d bbox =
     Math_min
       (jdiv (height d) (jsub (snd (bbox_y bbox)) (fst (bbox_y bbox))))
       (jdiv (width d)
          (Math_max (jsub (snd (bbox_x bbox)) (fst (bbox_x bbox)))
             (jsub (snd (bbox_z bbox)) (fst (bbox_z bbox)))))"

text \<open>The scale of the graph in the result of a handler, when it did not raise.\<close>

definition result_scale :: "exn + 'e component \<Rightarrow> vector3 option" where
  "result_scale r =
     (case r of
        Inl e \<Rightarrow> None
      | Inr c \<Rightarrow> (case forceGraph c of None \<Rightarrow> None | Some fg \<Rightarrow> Some (scale fg)))"

text \<open>The calls a handler added to the trace \<open>before\<close>, when it did not raise.\<close>

definition new_calls :: "call list \<Rightarrow> exn + 'e component \<Rightarrow> call list option" where
  "new_calls before r =
     (case r of
        Inl e \<Rightarrow> None
      | Inr c \<Rightarrow> Some (drop (length before) (calls c)))"

definition uniform :: "jsnum \<Rightarrow> vector3" where
  "uniform s = \<lparr>vec_x = s, vec_y = s, vec_z = s\<rparr>"

text \<open>
  The impulse the axis force \<open>name\<close> applies, in the result of a handler, to a node at
  coordinate \<open>pos\<close>: the modelled impulse at the strength the engine holds for the force.
\<close>

definition force_impulse :: "string \<Rightarrow> jsnum \<Rightarrow> jsnum \<Rightarrow> exn + 'e component \<Rightarrow> jsnum option" where
  "force_impulse name pos alpha r =
     (case r of
        Inl e \<Rightarrow> None
      | Inr c \<Rightarrow>
          (case forceGraph c of
             None \<Rightarrow> None
           | Some fg \<Rightarrow> map_option (\<lambda>k. axisImpulse k pos alpha) (forces fg name)))"

text \<open>The flag \<open>running\<close> in the result of a handler, when it did not raise.\<close>

definition result_running :: "exn + 'e component \<Rightarrow> bool option" where
  "result_running r = (case r of Inl e \<Rightarrow> None | Inr c \<Rightarrow> Some (running c))"

section \<open>A concrete instance\<close>

text \<open>
  A component with the schema's default configuration on a graph of two nodes, in a
  host whose engine reports a box of extents 2, 4 and 1, never stops and installs axis
  forces of strength 0.1.
\<close>

definition example_config :: config where
  "example_config =
     \<lparr>data_name = [], data_isNetworked = False, data_isInteractive = True,
      data_isDraggable = True, height = Num 1, width = Num 1, textSize = Num 2,
      jsonUrl = [], chargeForce = Num 0, xForce = Num 0, yForce = Num 0, zForce = Num 0,
      nodeId = ''id'', nodeVal = VStr ''val'', nodeColor = VStr ''color'',
      nodeAutoColorBy = VStr [], nodeOpacity = Num (3 / 4), linkSource = ''source'',
      linkTarget = ''target'', linkVisibility = True, linkColor = VStr ''color'',
      linkAutoColorBy = VStr [], linkOpacity = Num (1 / 5), linkWidth = VNum (Num 0)\<rparr>"

definition example_node :: "string \<Rightarrow> node" where
  "example_node i =
     \<lparr>node_id = i, node_name = i, node_color = ''#ff0000'', node_threeObj = None,
      node_box = None, htmlGenerator = None\<rparr>"

definition example_graph :: "unit forceGraph" where
  "example_graph =
     \<lparr>scale = \<lparr>vec_x = Num 1, vec_y = Num 1, vec_z = Num 1\<rparr>,
      forces = [''charge'' \<mapsto> Num (- 30)],
      fg_props = Map.empty,
      nodeThreeObject_set = False,
      nodes = [example_node ''a'', example_node ''b''],
      onFinishUpdate_set = False,
      onEngineStop_set = False,
      engine = ()\<rparr>"

definition example_bbox :: graphBbox where
  "example_bbox =
     \<lparr>bbox_x = (Num 0, Num 2), bbox_y = (Num 0, Num 4), bbox_z = (Num 0, Num 1)\<rparr>"

definition example_host :: "unit host" where
  "example_host =
     \<lparr>getGraphBbox = (\<lambda>fg. Some example_bbox),
      tickFrame = (\<lambda>fg. (fg, False)),
      engine_d3ReheatSimulation = (\<lambda>fg. fg),
      new_ThreeForceGraph = example_graph,
      d3ForceX = Num (1 / 10),
      d3ForceY = Num (1 / 10),
      d3ForceZ = Num (1 / 10),
      getInteractors = [7],
      getIntersection = (\<lambda>src objs. None),
      getWorldQuaternion = (\<lambda>fg. (0, 0, 0, 1)),
      cameraWorldQuaternion = (0, 0, 0, 1)\<rparr>"

definition blank_component :: "unit component" where
  "blank_component =
     \<lparr>data = example_config, running = False, forceGraph = None, isInteractive = False,
      isNetworked = False, isDraggable = False, clickEvent = None,
      clickIntersection = None, fullName = None, netEntity = False, stateSync = None,
      isDragging = False, cameraQuaternion = (0, 0, 0, 1), nodeQuaternion = (0, 0, 0, 1),
      container_graph = False, calls = []\<rparr>"

definition example_component :: "unit component" where
  "example_component = init example_host blank_component"

text \<open>
  The example component after its graph has been built and its engine has stopped: both
  handlers are registered and the flag is cleared.
\<close>

definition built_graph :: "unit forceGraph" where
  "built_graph =
     example_graph\<lparr>onFinishUpdate_set := True, onEngineStop_set := True,
       forces := [''charge'' \<mapsto> Num (- 30), ''x'' \<mapsto> Num (1 / 10),
                  ''y'' \<mapsto> Num (1 / 10), ''z'' \<mapsto> Num (1 / 10)]\<rparr>"

definition stopped_component :: "unit component" where
  "stopped_component =
     example_component\<lparr>forceGraph := Some built_graph, container_graph := True\<rparr>"

text \<open>
  The same component with two nodes whose objects the engine has made: the label of the
  first is not ready yet, the label of the second is.
\<close>

definition label_nodes :: "node list" where
  "label_nodes =
     [node_step example_component Build (example_node ''a''),
      node_step example_component Ready (node_step example_component Build (example_node ''b''))]"

definition label_component :: "unit component" where
  "label_component =
     example_component\<lparr>forceGraph := Some (built_graph\<lparr>nodes := label_nodes\<rparr>),
       container_graph := True\<rparr>"

text \<open>A box whose vertical extent is zero: all nodes lie in one horizontal plane.\<close>

definition flat_bbox :: graphBbox where
  "flat_bbox =
     \<lparr>bbox_x = (Num 0, Num 2), bbox_y = (Num 3, Num 3), bbox_z = (Num 0, Num 1)\<rparr>"

text \<open>
  A host whose engine reports the box of the graph as it is scaled: the extents 2, 4 and
  1 of the layout, each multiplied by the scale of the graph on the x axis.
\<close>

definition scaled_bbox_host :: "unit host" where
  "scaled_bbox_host =
     example_host\<lparr>getGraphBbox := \<lambda>fg.
       Some \<lparr>bbox_x = (Num 0, jmul (Num 2) (vec_x (scale fg))),
             bbox_y = (Num 0, jmul (Num 4) (vec_x (scale fg))),
             bbox_z = (Num 0, jmul (Num 1) (vec_x (scale fg)))\<rparr>\<rparr>"


section \<open>Facts shared by the proofs\<close>

lemmas example_defs =
  example_component_def blank_component_def example_host_def example_graph_def
  example_config_def example_bbox_def example_node_def init_def

lemmas handler_defs =
  fire_def engine_finishUpdate_def tick_def render_phase_def interaction_phase_def
  scaleToFit_def onEngineStop_handler_def
  onFinishUpdate_handler_def d3ReheatSimulation_def clicked_def bind_exn_def tickNode_def
  result_running_def result_scale_def new_calls_def Let_def

lemma example_forceGraph:
  "forceGraph example_component =
     Some (example_graph\<lparr>onFinishUpdate_set := True,
             forces := [''charge'' \<mapsto> Num (- 30), ''x'' \<mapsto> Num (1 / 10),
                        ''y'' \<mapsto> Num (1 / 10), ''z'' \<mapsto> Num (1 / 10)]\<rparr>)"
  by (simp add: example_defs Let_def)

lemma jmul_one: "jmul (Num 1) s = s"
  by (cases s) (simp_all add: inf_of_sign_def)

lemma count_list_app: "count_list (xs @ ys) a = count_list xs a + count_list ys a"
  by (induction xs) auto

subsection \<open>\<open>scaleToFit\<close>\<close>

lemma scaleToFit_no_bbox:
  "forceGraph c = Some fg \<Longrightarrow> getGraphBbox H fg = None \<Longrightarrow>
   scaleToFit H c = Inr (c\<lparr>calls := calls c @ [ScaleToFit]\<rparr>)"
  by (simp add: scaleToFit_def Let_def)

lemma scaleToFit_bbox:
  "forceGraph c = Some fg \<Longrightarrow> getGraphBbox H fg = Some b \<Longrightarrow>
   scaleToFit H c =
     Inr (c\<lparr>forceGraph :=
              Some (fg\<lparr>scale := uniform (jmul (fit_factor (data c) b) (vec_x (scale fg)))\<rparr>),
           calls := calls c @ [ScaleToFit, UpdateMatrix]\<rparr>)"
  by (simp add: scaleToFit_def Let_def fit_factor_def uniform_def)

lemma fit_factor_finite:
  assumes "bbox_x b = (Num x0, Num x1)" and "bbox_y b = (Num y0, Num y1)"
    and "bbox_z b = (Num z0, Num z1)"
    and "height d = Num h" and "width d = Num w"
    and "y1 - y0 \<noteq> 0" and "max (x1 - x0) (z1 - z0) \<noteq> 0"
  shows "fit_factor d b = Num (spec_scaleFactor h w (x1 - x0) (y1 - y0) (z1 - z0))"
  using assms by (simp add: fit_factor_def spec_scaleFactor_def Let_def)

lemma scaleToFit_running:
  "scaleToFit H c = Inr c' \<Longrightarrow> running c' = running c"
  by (auto simp: scaleToFit_def Let_def split: option.splits)

lemma scaleToFit_count:
  "scaleToFit H c = Inr c' \<Longrightarrow>
   \<exists>cs. calls c' = calls c @ cs \<and> count_list cs ScaleToFit = 1"
  by (auto simp: scaleToFit_def Let_def split: option.splits)

subsection \<open>The nodes of a frame\<close>

lemma forEach_node_calls:
  "snd (forEach_node q t ns) =
     concat (map (\<lambda>n. if htmlGenerator n = None then [] else [HtmlTick (node_id n) t]) ns)"
  by (induction ns) (auto simp: tickNode_def Let_def split: prod.splits option.splits)

lemma forEach_node_count:
  "count_list (snd (forEach_node q t ns)) ScaleToFit = 0"
  by (auto simp: forEach_node_calls count_list_0_iff)

lemma forEach_node_ticks:
  "filter is_HtmlTick (snd (forEach_node q t ns)) = snd (forEach_node q t ns)"
  by (induction ns) (auto simp: tickNode_def Let_def split: prod.splits option.splits)

lemma forEach_node_box:
  "map node_box (fst (forEach_node q t ns)) =
     map (\<lambda>n. map_option (\<lambda>r. jadd r (Num (3 / 100))) (node_box n)) ns"
  by (induction ns) (auto simp: tickNode_def Let_def split: prod.splits option.splits)

lemma forEach_node_gen:
  "map htmlGenerator (fst (forEach_node q t ns)) = map htmlGenerator ns"
  by (induction ns) (auto simp: tickNode_def Let_def split: prod.splits option.splits)

subsection \<open>The handlers and the flag\<close>

lemma interaction_phase_calls:
  "\<exists>cs. interaction_phase H c = c\<lparr>calls := calls c @ cs\<rparr> \<and>
        (\<forall>x \<in> set cs. x = GetInteractors \<or> (\<exists>i. x = GetIntersection i))"
proof (cases "isInteractive c \<and> \<not> (isDraggable c \<and> isDragging c)")
  case True
  then have "interaction_phase H c =
      c\<lparr>calls := calls c @ GetInteractors # map GetIntersection (getInteractors H)\<rparr>"
    by (simp add: interaction_phase_def)
  moreover have "\<forall>x \<in> set (GetInteractors # map GetIntersection (getInteractors H)).
      x = GetInteractors \<or> (\<exists>i. x = GetIntersection i)"
    by auto
  ultimately show ?thesis by blast
next
  case False
  then have "interaction_phase H c = c\<lparr>calls := calls c @ []\<rparr>"
    by (auto simp: interaction_phase_def)
  then show ?thesis by (metis empty_iff list.set(1))
qed

lemma interaction_phase_fields:
  "running (interaction_phase H c) = running c"
  "forceGraph (interaction_phase H c) = forceGraph c"
  "isNetworked (interaction_phase H c) = isNetworked c"
  "netEntity (interaction_phase H c) = netEntity c"
  "stateSync (interaction_phase H c) = stateSync c"
  by (simp_all add: interaction_phase_def)

lemma interaction_phase_count:
  "\<exists>cs. calls (interaction_phase H c) = calls c @ cs \<and> count_list cs ScaleToFit = 0 \<and>
        filter is_HtmlTick cs = []"
proof (cases "isInteractive c \<and> \<not> (isDraggable c \<and> isDragging c)")
  case True
  then have "calls (interaction_phase H c) =
      calls c @ GetInteractors # map GetIntersection (getInteractors H)"
    by (simp add: interaction_phase_def)
  moreover have "count_list (GetInteractors # map GetIntersection (getInteractors H)) ScaleToFit = 0"
    by (auto simp: count_list_0_iff)
  moreover have "filter is_HtmlTick (GetInteractors # map GetIntersection (getInteractors H)) = []"
    by (auto simp: filter_empty_conv)
  ultimately show ?thesis by blast
next
  case False
  then have "calls (interaction_phase H c) = calls c @ []"
    by (auto simp: interaction_phase_def)
  then show ?thesis by (metis count_list.simps(1) filter.simps(1))
qed

lemma scaleToFit_quiet:
  assumes "scaleToFit H c = Inr c'" and "forceGraph c = Some fg"
  shows "\<exists>fg' cs. forceGraph c' = Some fg' \<and> nodes fg' = nodes fg \<and>
           calls c' = calls c @ cs \<and> filter is_HtmlTick cs = []"
  using assms by (auto simp: scaleToFit_def Let_def split: option.splits)

lemma onEngineStop_handler_quiet:
  assumes "onEngineStop_handler H c = Inr c'" and "forceGraph c = Some fg"
  shows "\<exists>fg' cs. forceGraph c' = Some fg' \<and> nodes fg' = nodes fg \<and>
           calls c' = calls c @ cs \<and> filter is_HtmlTick cs = []"
proof -
  from assms(1) obtain c1 where 1: "scaleToFit H (c\<lparr>running := False\<rparr>) = Inr c1"
    and 2: "c' = c1\<lparr>calls := calls c1 @ [Emit ''updatePortals'']\<rparr>"
    by (auto simp: onEngineStop_handler_def bind_exn_def split: sum.splits)
  from assms(2) have "forceGraph (c\<lparr>running := False\<rparr>) = Some fg" by simp
  from scaleToFit_quiet [OF 1 this] obtain fg' cs
    where 3: "forceGraph c1 = Some fg'" "nodes fg' = nodes fg"
      "calls c1 = calls c @ cs" "filter is_HtmlTick cs = []"
    by auto
  from 2 3 have "forceGraph c' = Some fg'" and "nodes fg' = nodes fg"
    and "calls c' = calls c @ (cs @ [Emit ''updatePortals''])"
    and "filter is_HtmlTick (cs @ [Emit ''updatePortals'']) = []"
    by simp_all
  then show ?thesis by blast
qed

lemma onEngineStop_handler_count:
  assumes "onEngineStop_handler H c = Inr c'"
  shows "\<not> running c' \<and> (\<exists>cs. calls c' = calls c @ cs \<and> count_list cs ScaleToFit = 1)"
proof -
  from assms obtain c1 where 1: "scaleToFit H (c\<lparr>running := False\<rparr>) = Inr c1"
    and 2: "c' = c1\<lparr>calls := calls c1 @ [Emit ''updatePortals'']\<rparr>"
    by (auto simp: onEngineStop_handler_def bind_exn_def split: sum.splits)
  from scaleToFit_count [OF 1] obtain cs
    where 3: "calls c1 = calls c @ cs" "count_list cs ScaleToFit = 1"
    by auto
  from scaleToFit_running [OF 1] 2 have "\<not> running c'" by simp
  moreover from 2 3 have "calls c' = calls c @ (cs @ [Emit ''updatePortals''])"
    and "count_list (cs @ [Emit ''updatePortals'']) ScaleToFit = 1"
    by (simp_all add: count_list_app)
  ultimately show ?thesis by blast
qed

lemma scaleToFit_returns:
  "forceGraph c = Some fg \<Longrightarrow> \<exists>c' fg'. scaleToFit H c = Inr c' \<and> forceGraph c' = Some fg'"
  by (cases "getGraphBbox H fg") (simp_all add: scaleToFit_no_bbox scaleToFit_bbox)

lemma onEngineStop_handler_returns:
  "forceGraph c = Some fg \<Longrightarrow>
   \<exists>c' fg'. onEngineStop_handler H c = Inr c' \<and> forceGraph c' = Some fg'"
  using scaleToFit_returns [of "c\<lparr>running := False\<rparr>" fg H]
  by (auto simp: onEngineStop_handler_def bind_exn_def)

lemma render_phase_returns:
  assumes "forceGraph c = Some fg"
  shows "\<exists>c'. render_phase H t c = Inr c'"
proof -
  define nq where
    "nq = quat_multiply (quat_invert (getWorldQuaternion H fg)) (cameraWorldQuaternion H)"
  obtain ns cs where fe: "forEach_node nq t (nodes fg) = (ns, cs)"
    by (cases "forEach_node nq t (nodes fg)")
  define c1 where "c1 = c\<lparr>cameraQuaternion := cameraWorldQuaternion H, nodeQuaternion := nq,
      forceGraph := Some (fg\<lparr>nodes := ns\<rparr>),
      calls := calls c @ [CameraUpdateMatrices] @ cs @ [TraverseVisible]\<rparr>"
  have "forceGraph c1 = Some (fg\<lparr>nodes := ns\<rparr>)" by (simp add: c1_def)
  from scaleToFit_returns [OF this, of H] obtain c5 where "scaleToFit H c1 = Inr c5" by blast
  moreover have "render_phase H t c = (if running c1 then scaleToFit H c1 else Inr c1)"
    using assms fe by (simp add: render_phase_def Let_def nq_def [symmetric] c1_def)
  ultimately show ?thesis by auto
qed

lemma render_phase_count:
  assumes "render_phase H t c = Inr c'"
  shows "running c' = running c \<and>
         (\<exists>cs. calls c' = calls c @ cs \<and>
               count_list cs ScaleToFit = (if running c then 1 else 0))"
proof -
  from assms obtain fg where fg: "forceGraph c = Some fg"
    by (auto simp: render_phase_def split: option.splits)
  define nq where
    "nq = quat_multiply (quat_invert (getWorldQuaternion H fg)) (cameraWorldQuaternion H)"
  obtain ns cs where fe: "forEach_node nq t (nodes fg) = (ns, cs)"
    by (cases "forEach_node nq t (nodes fg)")
  have cs0: "count_list cs ScaleToFit = 0"
    using forEach_node_count [of nq t "nodes fg"] fe by simp
  define c1 where "c1 = c\<lparr>cameraQuaternion := cameraWorldQuaternion H, nodeQuaternion := nq,
      forceGraph := Some (fg\<lparr>nodes := ns\<rparr>),
      calls := calls c @ [CameraUpdateMatrices] @ cs @ [TraverseVisible]\<rparr>"
  have r: "render_phase H t c = (if running c1 then scaleToFit H c1 else Inr c1)"
    using fg fe by (simp add: render_phase_def Let_def nq_def [symmetric] c1_def)
  let ?pre = "[CameraUpdateMatrices] @ cs @ [TraverseVisible]"
  have c1f: "running c1 = running c" "calls c1 = calls c @ ?pre"
    by (simp_all add: c1_def)
  have prec: "count_list ?pre ScaleToFit = 0"
    using cs0 by (simp add: count_list_app)
  show ?thesis
  proof (cases "running c")
    case True
    with r assms c1f have s: "scaleToFit H c1 = Inr c'" by simp
    from scaleToFit_count [OF s] obtain cs5
      where cs5: "calls c' = calls c1 @ cs5" "count_list cs5 ScaleToFit = 1"
      by blast
    have "calls c' = calls c @ (?pre @ cs5)"
      using cs5(1) c1f(2) by simp
    moreover have "count_list (?pre @ cs5) ScaleToFit = 1"
      using prec cs5(2) by (simp only: count_list_app)
    ultimately show ?thesis
      using True scaleToFit_running [OF s] c1f(1) by (metis (full_types))
  next
    case False
    with r assms c1f have "c' = c1" by simp
    with False c1f prec show ?thesis by (metis (full_types))
  qed
qed

lemma tick_open:
  assumes "forceGraph c = Some fg"
    and "\<not> (isNetworked c \<and> (\<not> netEntity c \<or> stateSync c = None))"
    and "tickFrame H fg = (fg1, stopped)"
  shows "\<exists>c3 cs. forceGraph c3 = Some fg1 \<and> running c3 = running c \<and>
           calls c3 = calls c @ cs \<and> count_list cs ScaleToFit = 0 \<and>
           filter is_HtmlTick cs = [] \<and>
           tick H t c = bind_exn (if stopped \<and> onEngineStop_set fg
                                  then onEngineStop_handler H c3 else Inr c3)
                                 (render_phase H t)"
proof -
  define c1 where "c1 = interaction_phase H c"
  define c2 where "c2 = (if isNetworked c1 \<and> stateSync c1 = Some True
                         then c1\<lparr>stateSync := Some False\<rparr> else c1)"
  define c3 where "c3 = c2\<lparr>forceGraph := Some fg1, calls := calls c2 @ [TickFrame]\<rparr>"
  obtain cs1 where cs1: "calls c1 = calls c @ cs1" "count_list cs1 ScaleToFit = 0"
    "filter is_HtmlTick cs1 = []"
    using interaction_phase_count c1_def by blast
  have f2: "forceGraph c2 = Some fg" "running c2 = running c" "calls c2 = calls c1"
    using assms(1) by (simp_all add: c2_def c1_def interaction_phase_fields)
  have gate: "(isNetworked c1 \<and> (\<not> netEntity c1 \<or> stateSync c1 = None)) = False"
    using assms(2) by (simp add: c1_def interaction_phase_fields)
  have "tick H t c = bind_exn (if stopped \<and> onEngineStop_set fg
                               then onEngineStop_handler H c3 else Inr c3)
                              (render_phase H t)"
    using f2(1) assms(3)
    by (simp only: tick_def Let_def c1_def [symmetric] c2_def [symmetric] c3_def [symmetric]
        gate if_False option.case prod.case)
  moreover have "forceGraph c3 = Some fg1" "running c3 = running c"
    "calls c3 = calls c @ (cs1 @ [TickFrame])" "count_list (cs1 @ [TickFrame]) ScaleToFit = 0"
    "filter is_HtmlTick (cs1 @ [TickFrame]) = []"
    using f2 cs1 by (simp_all add: c3_def count_list_app)
  ultimately show ?thesis by blast
qed


lemma update_running: "update old c = Inr c' \<Longrightarrow> running c' = running c"
  unfolding update_def bind_exn_def
  by (auto split: option.splits prod.splits sum.splits if_splits)




lemma render_phase_nodes:
  assumes "render_phase H t c = Inr c'" and "forceGraph c = Some fg"
  shows "\<exists>fg' cs q. forceGraph c' = Some fg' \<and> nodes fg' = fst (forEach_node q t (nodes fg)) \<and>
           calls c' = calls c @ cs \<and> filter is_HtmlTick cs = snd (forEach_node q t (nodes fg))"
proof -
  define nq where
    "nq = quat_multiply (quat_invert (getWorldQuaternion H fg)) (cameraWorldQuaternion H)"
  obtain ns cs where fe: "forEach_node nq t (nodes fg) = (ns, cs)"
    by (cases "forEach_node nq t (nodes fg)")
  have tk: "filter is_HtmlTick cs = cs"
    using forEach_node_ticks [of nq t "nodes fg"] fe by simp
  define c1 where "c1 = c\<lparr>cameraQuaternion := cameraWorldQuaternion H, nodeQuaternion := nq,
      forceGraph := Some (fg\<lparr>nodes := ns\<rparr>),
      calls := calls c @ [CameraUpdateMatrices] @ cs @ [TraverseVisible]\<rparr>"
  have r: "render_phase H t c = (if running c1 then scaleToFit H c1 else Inr c1)"
    using assms(2) fe by (simp add: render_phase_def Let_def nq_def [symmetric] c1_def)
  let ?pre = "[CameraUpdateMatrices] @ cs @ [TraverseVisible]"
  have c1f: "forceGraph c1 = Some (fg\<lparr>nodes := ns\<rparr>)" "calls c1 = calls c @ ?pre"
    by (simp_all add: c1_def)
  have pre: "filter is_HtmlTick ?pre = cs"
    using tk by simp
  show ?thesis
  proof (cases "running c1")
    case True
    with r assms(1) have s: "scaleToFit H c1 = Inr c'" by simp
    from scaleToFit_quiet [OF s c1f(1)] obtain fg' cs5
      where 5: "forceGraph c' = Some fg'" "nodes fg' = nodes (fg\<lparr>nodes := ns\<rparr>)"
        "calls c' = calls c1 @ cs5" "filter is_HtmlTick cs5 = []"
      by blast
    have "nodes fg' = fst (forEach_node nq t (nodes fg))"
      using 5(2) fe by simp
    moreover have "calls c' = calls c @ (?pre @ cs5)"
      using 5(3) c1f(2) by simp
    moreover have "filter is_HtmlTick (?pre @ cs5) = snd (forEach_node nq t (nodes fg))"
      using pre 5(4) fe by simp
    ultimately show ?thesis using 5(1) by blast
  next
    case False
    with r assms(1) have "c' = c1" by simp
    then have "forceGraph c' = Some (fg\<lparr>nodes := ns\<rparr>)"
      and "nodes (fg\<lparr>nodes := ns\<rparr>) = fst (forEach_node nq t (nodes fg))"
      and "calls c' = calls c @ ?pre"
      and "filter is_HtmlTick ?pre = snd (forEach_node nq t (nodes fg))"
      using c1f pre fe by simp_all
    then show ?thesis by blast
  qed
qed

lemma tick_nodes:
  assumes "forceGraph c = Some fg"
    and "\<not> (isNetworked c \<and> (\<not> netEntity c \<or> stateSync c = None))"
    and "tickFrame H fg = (fg1, stopped)"
  shows "\<exists>c' fg' cs q. tick H t c = Inr c' \<and> forceGraph c' = Some fg' \<and>
           nodes fg' = fst (forEach_node q t (nodes fg1)) \<and>
           calls c' = calls c @ cs \<and>
           filter is_HtmlTick cs = snd (forEach_node q t (nodes fg1))"
proof -
  from tick_open [OF assms, of t] obtain c3 cs3
    where c3: "forceGraph c3 = Some fg1" "calls c3 = calls c @ cs3"
      "filter is_HtmlTick cs3 = []"
      "tick H t c = bind_exn (if stopped \<and> onEngineStop_set fg
                              then onEngineStop_handler H c3 else Inr c3) (render_phase H t)"
    by blast
  have "\<exists>c4 fg4 cs4. (if stopped \<and> onEngineStop_set fg
                        then onEngineStop_handler H c3 else Inr c3) = Inr c4 \<and>
          forceGraph c4 = Some fg4 \<and> nodes fg4 = nodes fg1 \<and>
          calls c4 = calls c3 @ cs4 \<and> filter is_HtmlTick cs4 = []"
  proof (cases "stopped \<and> onEngineStop_set fg")
    case True
    from onEngineStop_handler_returns [OF c3(1), of H] obtain c4
      where c4: "onEngineStop_handler H c3 = Inr c4"
      by blast
    from onEngineStop_handler_quiet [OF c4 c3(1)] c4 True show ?thesis by auto
  next
    case False
    have "calls c3 = calls c3 @ []" and "filter is_HtmlTick ([] :: call list) = []" by simp_all
    with False c3(1) show ?thesis by (metis (full_types))
  qed
  then obtain c4 fg4 cs4
    where c4: "(if stopped \<and> onEngineStop_set fg
                then onEngineStop_handler H c3 else Inr c3) = Inr c4"
      "forceGraph c4 = Some fg4" "nodes fg4 = nodes fg1"
      "calls c4 = calls c3 @ cs4" "filter is_HtmlTick cs4 = []"
    by blast
  from render_phase_returns [OF c4(2), of H t] obtain c'
    where c': "render_phase H t c4 = Inr c'"
    by blast
  from render_phase_nodes [OF c' c4(2)] obtain fg' cs5 q
    where 5: "forceGraph c' = Some fg'" "nodes fg' = fst (forEach_node q t (nodes fg4))"
      "calls c' = calls c4 @ cs5" "filter is_HtmlTick cs5 = snd (forEach_node q t (nodes fg4))"
    by blast
  have "tick H t c = Inr c'"
    using c3(4) c4(1) c' by (simp add: bind_exn_def)
  moreover have "nodes fg' = fst (forEach_node q t (nodes fg1))"
    using 5(2) c4(3) by simp
  moreover have "calls c' = calls c @ (cs3 @ cs4 @ cs5)"
    using 5(3) c4(4) c3(2) by simp
  moreover have "filter is_HtmlTick (cs3 @ cs4 @ cs5) = snd (forEach_node q t (nodes fg1))"
    using c3(3) c4(5) 5(4) c4(3) by simp
  ultimately show ?thesis using 5(1) by blast
qed

subsection \<open>The content of one node\<close>

lemma node_step_box:
  "node_box (node_step c Build n) = Some (Num 0)"
  "node_box (node_step c Ready n) = (if node_threeObj n = None then node_box n else None)"
  "node_box (node_step c (Visit q t) n) = map_option (\<lambda>r. jadd r (Num (3 / 100))) (node_box n)"
  by (auto simp: node_step_def makeHTMLText_def waitForReady_then_def tickNode_def Let_def
      split: option.splits)

lemma transitions_bound:
  "transitions c evs n \<le> count_list evs Build + (if node_box n = None then 0 else 1)"
proof (induction evs arbitrary: n)
  case Nil
  then show ?case by simp
next
  case (Cons ev evs)
  show ?case
  proof (cases ev)
    case Build
    with Cons.IH [of "node_step c Build n"] show ?thesis
      by (simp add: node_step_box)
  next
    case Ready
    with Cons.IH [of "node_step c Ready n"] show ?thesis
      by (auto simp: node_step_box split: if_splits)
  next
    case (Visit q t)
    with Cons.IH [of "node_step c (Visit q t) n"] show ?thesis
      by (cases "node_box n") (auto simp: node_step_box)
  qed
qed




subsection \<open>Configuration updates\<close>

lemma fold_forwardProp:
  "fold forwardProp ps (d, fg) = (d', fg') \<Longrightarrow>
   forces fg' = forces fg \<and> chargeForce d' = chargeForce d \<and> xForce d' = xForce d \<and>
   yForce d' = yForce d \<and> zForce d' = zForce d"
proof (induction ps arbitrary: d fg)
  case Nil
  then show ?case by simp
next
  case (Cons p ps)
  obtain d1 fg1 where st: "forwardProp p (d, fg) = (d1, fg1)"
    by (cases "forwardProp p (d, fg)")
  then have eq: "forces fg1 = forces fg \<and> chargeForce d1 = chargeForce d \<and>
      xForce d1 = xForce d \<and> yForce d1 = yForce d \<and> zForce d1 = zForce d"
    by (auto simp: forwardProp_def Let_def split: if_splits)
  from Cons.prems st have "fold forwardProp ps (d1, fg1) = (d', fg')" by simp
  from Cons.IH [OF this] eq show ?case by simp
qed

lemma set_strength_forces:
  "set_strength name v fg = Inr fg' \<Longrightarrow> forces fg' = (forces fg)(name \<mapsto> v)"
  by (auto simp: set_strength_def split: option.splits)

subsection \<open>The accessor parser\<close>



section \<open>Force strengths (C1)\<close>

text \<open>
  Claim C1, refuted as stated. The component of the example has been initialised, so its
  engine holds the axis force \<open>x\<close>. A first update configures \<open>xForce = 0.5\<close>, a second
  one configures \<open>xForce = 0\<close> again. After the second update the engine still holds
  the strength 0.5 for the force, and the impulse of that force on a node at \<open>x = 1\<close>
  is \<open>-0.5\<close>, not zero. After an update with \<open>xForce = 0\<close> alone the force has the
  strength it was made with.
\<close>

theorem zero_strength_counterexample:
  "xForce example_config = Num 0 \<and>
   force_impulse ''x'' (Num 1) (Num 1)
     (run example_host [Update (example_config\<lparr>xForce := Num (1 / 2)\<rparr>), Update example_config]
        example_component) = Some (Num (- (1 / 2))) \<and>
   force_impulse ''x'' (Num 1) (Num 1) (update None example_component) = Some (Num (- (1 / 10)))"
  by (simp add: example_defs fire_def engine_finishUpdate_def onFinishUpdate_handler_def
      update_def bind_exn_def set_strength_def fgProps_def in_diff_def strict_neq_def
      elData_get_def forwardProp_def force_impulse_def axisImpulse_def Let_def)

text \<open>
  Claim C1, amended: for the charge force and for each of the three axis forces, the
  strength the engine holds after an update that does not raise is the configured
  strength when that is not zero, and the strength the engine held before the update
  when the configured strength is zero.
\<close>

theorem update_zero_strength_keeps:
  assumes "update oldData c = Inr c'" and "forceGraph c = Some fg"
  shows "\<exists>fg'. forceGraph c' = Some fg' \<and>
     forces fg' ''charge'' = (if neq_zero (chargeForce (data c)) then Some (chargeForce (data c))
                              else forces fg ''charge'') \<and>
     forces fg' ''x'' = (if neq_zero (xForce (data c)) then Some (xForce (data c))
                         else forces fg ''x'') \<and>
     forces fg' ''y'' = (if neq_zero (yForce (data c)) then Some (yForce (data c))
                         else forces fg ''y'') \<and>
     forces fg' ''z'' = (if neq_zero (zForce (data c)) then Some (zForce (data c))
                         else forces fg ''z'')"
proof -
  obtain d fg1
    where f: "fold forwardProp (filter (in_diff (data c) oldData) fgProps) (data c, fg) = (d, fg1)"
    by (cases "fold forwardProp (filter (in_diff (data c) oldData) fgProps) (data c, fg)")
  note k = fold_forwardProp [OF f]
  from assms f show ?thesis
    unfolding update_def bind_exn_def
    by (auto simp: k dest!: set_strength_forces split: if_splits sum.splits)
qed

text \<open>
  Claim C1, the amended statement at a concrete input: the example component configured
  with \<open>yForce = 0.25\<close> and every other strength zero. The update sets the strength of
  \<open>y\<close> and leaves the charge force at \<open>-30\<close> and the forces \<open>x\<close> and \<open>z\<close> at 0.1.
\<close>

theorem update_zero_strength_keeps_witness:
  "\<exists>c' fg'. update None (example_component\<lparr>data := example_config\<lparr>yForce := Num (1 / 4)\<rparr>\<rparr>) = Inr c' \<and>
     forceGraph c' = Some fg' \<and>
     forces fg' ''charge'' = Some (Num (- 30)) \<and> forces fg' ''x'' = Some (Num (1 / 10)) \<and>
     forces fg' ''y'' = Some (Num (1 / 4)) \<and> forces fg' ''z'' = Some (Num (1 / 10))"
proof -
  let ?c = "example_component\<lparr>data := example_config\<lparr>yForce := Num (1 / 4)\<rparr>\<rparr>"
  obtain c' where u: "update None ?c = Inr c'"
    by (simp add: example_defs update_def bind_exn_def set_strength_def fgProps_def
        in_diff_def strict_neq_def elData_get_def forwardProp_def Let_def)
  have g: "forceGraph ?c =
     Some (example_graph\<lparr>onFinishUpdate_set := True,
             forces := [''charge'' \<mapsto> Num (- 30), ''x'' \<mapsto> Num (1 / 10),
                        ''y'' \<mapsto> Num (1 / 10), ''z'' \<mapsto> Num (1 / 10)]\<rparr>)"
    by (simp add: example_forceGraph)
  from update_zero_strength_keeps [OF u g] u show ?thesis
    by (simp add: example_config_def)
qed

section \<open>Fitting (C2, C3, C8)\<close>

text \<open>
  Claim C2, refuted as stated. The host of the example reports the same bounding box
  whatever the scale of the graph. Target height and width are 1 and the extents are 2,
  4 and 1, so the factor is \<open>min (1/4) (1/2) = 1/4\<close>. From the scale 1 one invocation
  gives the scale 1/4; a second invocation gives 1/16.
\<close>

theorem scaleToFit_twice_counterexample:
  "getGraphBbox example_host = (\<lambda>fg. Some example_bbox) \<and>
   result_scale (scaleToFit example_host example_component) = Some (uniform (Num (1 / 4))) \<and>
   result_scale (bind_exn (scaleToFit example_host example_component) (scaleToFit example_host))
     = Some (uniform (Num (1 / 16)))"
  by (simp add: example_defs scaleToFit_def fit_factor_def result_scale_def uniform_def
      bind_exn_def Let_def)

text \<open>
  Claim C2, amended: every invocation multiplies the current scale on the x axis by the
  factor of the bounding box it reads and sets all three axes to the product. Two
  consecutive invocations therefore apply two factors, the same factor twice when the
  bounding box is unchanged; the second invocation leaves the scale of the first
  unchanged when the factor of the box it reads is 1, that is, when that box already
  fits the target.
\<close>

theorem scaleToFit_twice:
  assumes "forceGraph c = Some fg" and "getGraphBbox H fg = Some b"
    and "getGraphBbox H (fg\<lparr>scale := uniform (jmul (fit_factor (data c) b) (vec_x (scale fg)))\<rparr>)
           = Some b'"
  shows "result_scale (scaleToFit H c)
           = Some (uniform (jmul (fit_factor (data c) b) (vec_x (scale fg)))) \<and>
         result_scale (bind_exn (scaleToFit H c) (scaleToFit H))
           = Some (uniform (jmul (fit_factor (data c) b')
                              (jmul (fit_factor (data c) b) (vec_x (scale fg))))) \<and>
         (fit_factor (data c) b' = Num 1 \<longrightarrow>
            result_scale (bind_exn (scaleToFit H c) (scaleToFit H))
              = result_scale (scaleToFit H c))"
proof -
  let ?f = "fit_factor (data c) b"
  let ?fg1 = "fg\<lparr>scale := uniform (jmul ?f (vec_x (scale fg)))\<rparr>"
  let ?c1 = "c\<lparr>forceGraph := Some ?fg1, calls := calls c @ [ScaleToFit, UpdateMatrix]\<rparr>"
  have first: "scaleToFit H c = Inr ?c1"
    using assms(1,2) by (rule scaleToFit_bbox)
  have "scaleToFit H ?c1 =
      Inr (?c1\<lparr>forceGraph :=
                 Some (?fg1\<lparr>scale := uniform (jmul (fit_factor (data ?c1) b')
                                          (vec_x (scale ?fg1)))\<rparr>),
               calls := calls ?c1 @ [ScaleToFit, UpdateMatrix]\<rparr>)"
    using assms(3) by (intro scaleToFit_bbox) simp_all
  then have second: "result_scale (scaleToFit H ?c1)
      = Some (uniform (jmul (fit_factor (data c) b') (jmul ?f (vec_x (scale fg)))))"
    by (simp add: result_scale_def uniform_def)
  have one: "result_scale (scaleToFit H c) = Some (uniform (jmul ?f (vec_x (scale fg))))"
    by (simp add: first result_scale_def)
  have two: "result_scale (bind_exn (scaleToFit H c) (scaleToFit H))
      = Some (uniform (jmul (fit_factor (data c) b') (jmul ?f (vec_x (scale fg)))))"
    using second by (simp add: first bind_exn_def)
  have "fit_factor (data c) b' = Num 1 \<longrightarrow>
      result_scale (bind_exn (scaleToFit H c) (scaleToFit H)) = result_scale (scaleToFit H c)"
    by (simp only: one two) (simp add: jmul_one)
  with one two show ?thesis by blast
qed

text \<open>
  Claim C2, the amended statement at concrete inputs. In the example the box is the same
  for both invocations and its factor 1/4 is applied twice. In the host that reports the
  box of the scaled graph, the first invocation reads the extents 2, 4 and 1 and sets the
  scale to 1/4; the second reads the extents 1/2, 1 and 1/4, whose factor is 1, and
  leaves the scale at 1/4.
\<close>

theorem scaleToFit_twice_witness:
  "result_scale (bind_exn (scaleToFit example_host example_component) (scaleToFit example_host))
     = Some (uniform (Num (1 / 16))) \<and>
   fit_factor example_config
     \<lparr>bbox_x = (Num 0, Num (1 / 2)), bbox_y = (Num 0, Num 1), bbox_z = (Num 0, Num (1 / 4))\<rparr>
     = Num 1 \<and>
   result_scale (scaleToFit scaled_bbox_host example_component) = Some (uniform (Num (1 / 4))) \<and>
   result_scale
     (bind_exn (scaleToFit scaled_bbox_host example_component) (scaleToFit scaled_bbox_host))
     = Some (uniform (Num (1 / 4)))"
  using
    scaleToFit_twice [of example_component _ example_host example_bbox example_bbox]
    scaleToFit_twice
      [of example_component _ scaled_bbox_host example_bbox
          "\<lparr>bbox_x = (Num 0, Num (1 / 2)), bbox_y = (Num 0, Num 1),
            bbox_z = (Num 0, Num (1 / 4))\<rparr>"]
  by (simp add: example_forceGraph)
     (simp add: example_defs scaled_bbox_host_def fit_factor_def uniform_def)

text \<open>
  Claim C3, refuted as stated. The box \<open>flat_bbox\<close> has vertical extent \<open>3 - 3 = 0\<close>.
  The target height 1 divided by it is Infinity, the width quotient is \<open>1 / 2\<close>, and the
  scale of the graph goes from 1 to 1/2 instead of staying as it was.
\<close>

theorem zero_extent_counterexample:
  "jsub (snd (bbox_y flat_bbox)) (fst (bbox_y flat_bbox)) = Num 0 \<and>
   result_scale (Inr example_component) = Some (uniform (Num 1)) \<and>
   result_scale
     (scaleToFit (example_host\<lparr>getGraphBbox := \<lambda>fg. Some flat_bbox\<rparr>) example_component)
     = Some (uniform (Num (1 / 2)))"
  by (simp add: example_defs flat_bbox_def handler_defs uniform_def inf_of_sign_def)

text \<open>
  Claim C3, amended: \<open>scaleToFit\<close> returns without assigning the scale only when the
  engine reports no bounding box. For every bounding box, whatever its extents, it assigns
  to all three axes \<open>min (height / sizeH) (width / sizeW)\<close> times the current scale on the
  x axis, computed with JavaScript's arithmetic, and calls \<open>updateMatrix\<close>: no extent is
  tested for zero.
  A positive target divided by a zero extent is Infinity, so with a zero vertical extent
  and a horizontal size that is not zero the factor is \<open>width / sizeW\<close>, and with a zero
  horizontal size and a vertical extent that is not zero the factor is \<open>height / sizeH\<close>.
\<close>

theorem scaleToFit_skips_only_without_bbox:
  assumes "forceGraph c = Some fg"
  shows "(getGraphBbox H fg = None \<longrightarrow>
            scaleToFit H c = Inr (c\<lparr>calls := calls c @ [ScaleToFit]\<rparr>)) \<and>
         (getGraphBbox H fg = Some b \<longrightarrow>
            scaleToFit H c =
              Inr (c\<lparr>forceGraph :=
                       Some (fg\<lparr>scale :=
                         uniform
                           (jmul
                              (Math_min
                                 (jdiv (height (data c))
                                    (jsub (snd (bbox_y b)) (fst (bbox_y b))))
                                 (jdiv (width (data c))
                                    (Math_max (jsub (snd (bbox_x b)) (fst (bbox_x b)))
                                       (jsub (snd (bbox_z b)) (fst (bbox_z b))))))
                              (vec_x (scale fg)))\<rparr>),
                     calls := calls c @ [ScaleToFit, UpdateMatrix]\<rparr>)) \<and>
         (getGraphBbox H fg = Some b \<and> bbox_y b = (Num ya, Num ya) \<and>
          bbox_x b = (Num xa, Num xb) \<and> bbox_z b = (Num za, Num zb) \<and>
          height (data c) = Num h \<and> 0 < h \<and> width (data c) = Num w \<and>
          max (xb - xa) (zb - za) \<noteq> 0 \<longrightarrow>
            result_scale (scaleToFit H c) =
              Some (uniform (jmul (Num (w / max (xb - xa) (zb - za))) (vec_x (scale fg))))) \<and>
         (getGraphBbox H fg = Some b \<and> bbox_y b = (Num ya, Num yb) \<and>
          bbox_x b = (Num xa, Num xa) \<and> bbox_z b = (Num za, Num za) \<and>
          height (data c) = Num h \<and> width (data c) = Num w \<and> 0 < w \<and>
          yb - ya \<noteq> 0 \<longrightarrow>
            result_scale (scaleToFit H c) =
              Some (uniform (jmul (Num (h / (yb - ya))) (vec_x (scale fg)))))"
proof (intro conjI impI)
  assume "getGraphBbox H fg = None"
  with assms show "scaleToFit H c = Inr (c\<lparr>calls := calls c @ [ScaleToFit]\<rparr>)"
    by (simp add: scaleToFit_no_bbox)
next
  assume "getGraphBbox H fg = Some b"
  with assms show "scaleToFit H c =
              Inr (c\<lparr>forceGraph :=
                       Some (fg\<lparr>scale :=
                         uniform
                           (jmul
                              (Math_min
                                 (jdiv (height (data c))
                                    (jsub (snd (bbox_y b)) (fst (bbox_y b))))
                                 (jdiv (width (data c))
                                    (Math_max (jsub (snd (bbox_x b)) (fst (bbox_x b)))
                                       (jsub (snd (bbox_z b)) (fst (bbox_z b))))))
                              (vec_x (scale fg)))\<rparr>),
                     calls := calls c @ [ScaleToFit, UpdateMatrix]\<rparr>)"
    by (simp add: scaleToFit_bbox fit_factor_def)
next
  assume a: "getGraphBbox H fg = Some b \<and> bbox_y b = (Num ya, Num ya) \<and>
          bbox_x b = (Num xa, Num xb) \<and> bbox_z b = (Num za, Num zb) \<and>
          height (data c) = Num h \<and> 0 < h \<and> width (data c) = Num w \<and>
          max (xb - xa) (zb - za) \<noteq> 0"
  then have "fit_factor (data c) b = Num (w / max (xb - xa) (zb - za))"
    by (simp add: fit_factor_def inf_of_sign_def)
  with a assms show "result_scale (scaleToFit H c) =
              Some (uniform (jmul (Num (w / max (xb - xa) (zb - za))) (vec_x (scale fg))))"
    by (simp add: scaleToFit_bbox result_scale_def)
next
  assume a: "getGraphBbox H fg = Some b \<and> bbox_y b = (Num ya, Num yb) \<and>
          bbox_x b = (Num xa, Num xa) \<and> bbox_z b = (Num za, Num za) \<and>
          height (data c) = Num h \<and> width (data c) = Num w \<and> 0 < w \<and>
          yb - ya \<noteq> 0"
  then have "fit_factor (data c) b = Num (h / (yb - ya))"
    by (simp add: fit_factor_def inf_of_sign_def)
  with a assms show "result_scale (scaleToFit H c) =
              Some (uniform (jmul (Num (h / (yb - ya))) (vec_x (scale fg))))"
    by (simp add: scaleToFit_bbox result_scale_def)
qed

text \<open>
  Claim C3, the amended statement at concrete inputs: a host that reports no bounding
  box, where only the trace grows; the host that reports \<open>flat_bbox\<close>, whose vertical
  extent is zero, where the scale becomes \<open>(1 / 2) * 1\<close>; and a host that reports a box
  whose horizontal extents are both zero and whose vertical extent is 4, where the scale
  becomes \<open>(1 / 4) * 1\<close>.
\<close>

theorem scaleToFit_skips_only_without_bbox_witness:
  "scaleToFit (example_host\<lparr>getGraphBbox := \<lambda>fg. None\<rparr>) example_component
     = Inr (example_component\<lparr>calls := [ScaleToFit]\<rparr>) \<and>
   result_scale
     (scaleToFit (example_host\<lparr>getGraphBbox := \<lambda>fg. Some flat_bbox\<rparr>) example_component)
     = Some (uniform (Num (1 / 2))) \<and>
   result_scale
     (scaleToFit
        (example_host\<lparr>getGraphBbox := \<lambda>fg.
           Some \<lparr>bbox_x = (Num 5, Num 5), bbox_y = (Num 0, Num 4), bbox_z = (Num 6, Num 6)\<rparr>\<rparr>)
        example_component)
     = Some (uniform (Num (1 / 4)))"
proof -
  let ?g = "example_graph\<lparr>onFinishUpdate_set := True,
             forces := [''charge'' \<mapsto> Num (- 30), ''x'' \<mapsto> Num (1 / 10),
                        ''y'' \<mapsto> Num (1 / 10), ''z'' \<mapsto> Num (1 / 10)]\<rparr>"
  let ?thin = "\<lparr>bbox_x = (Num 5, Num 5), bbox_y = (Num 0, Num 4), bbox_z = (Num 6, Num 6)\<rparr>"
  have d: "height (data example_component) = Num 1" "width (data example_component) = Num 1"
    "vec_x (scale ?g) = Num 1"
    by (simp_all add: example_defs)
  from scaleToFit_skips_only_without_bbox
      [OF example_forceGraph, where H = "example_host\<lparr>getGraphBbox := \<lambda>fg. None\<rparr>"]
  have 1: "scaleToFit (example_host\<lparr>getGraphBbox := \<lambda>fg. None\<rparr>) example_component
      = Inr (example_component\<lparr>calls := calls example_component @ [ScaleToFit]\<rparr>)"
    by simp
  from scaleToFit_skips_only_without_bbox
      [OF example_forceGraph,
       where H = "example_host\<lparr>getGraphBbox := \<lambda>fg. Some flat_bbox\<rparr>"
         and b = flat_bbox and ya = 3 and xa = 0 and xb = 2 and za = 0 and zb = 1
         and h = 1 and w = 1] d
  have 2: "result_scale
      (scaleToFit (example_host\<lparr>getGraphBbox := \<lambda>fg. Some flat_bbox\<rparr>) example_component)
      = Some (uniform (jmul (Num (1 / max (2 - 0) (1 - 0))) (Num 1)))"
    by (simp add: flat_bbox_def inf_of_sign_def result_scale_def)
  from scaleToFit_skips_only_without_bbox
      [OF example_forceGraph,
       where H = "example_host\<lparr>getGraphBbox := \<lambda>fg. Some ?thin\<rparr>"
         and b = ?thin and ya = 0 and yb = 4 and xa = 5 and za = 6 and h = 1 and w = 1] d
  have 3: "result_scale
      (scaleToFit (example_host\<lparr>getGraphBbox := \<lambda>fg. Some ?thin\<rparr>) example_component)
      = Some (uniform (jmul (Num (1 / (4 - 0))) (Num 1)))"
    by (simp add: inf_of_sign_def result_scale_def)
  have c0: "calls example_component = []"
    by (simp add: example_defs)
  from 1 2 3 c0 show ?thesis by simp
qed

text \<open>
  Claim C8: for a bounding box with finite bounds whose vertical extent and whose larger
  horizontal extent are not zero, and finite target sizes, \<open>scaleToFit\<close> sets each of
  the three scale axes to the specification's multiplier
  \<open>min (targetHeight / sizeH) (targetWidth / sizeW)\<close> times the current scale on the x
  axis, where \<open>sizeH\<close> is the extent in y and \<open>sizeW\<close> the larger of the extents in x
  and z.
\<close>

theorem scaleToFit_multiplier:
  assumes "forceGraph c = Some fg" and "getGraphBbox H fg = Some b"
    and "bbox_x b = (Num x0, Num x1)" and "bbox_y b = (Num y0, Num y1)"
    and "bbox_z b = (Num z0, Num z1)"
    and "height (data c) = Num h" and "width (data c) = Num w"
    and "y1 - y0 \<noteq> 0" and "max (x1 - x0) (z1 - z0) \<noteq> 0"
  shows "result_scale (scaleToFit H c) =
           Some \<lparr>vec_x = jmul (Num (spec_scaleFactor h w (x1 - x0) (y1 - y0) (z1 - z0)))
                           (vec_x (scale fg)),
                 vec_y = jmul (Num (spec_scaleFactor h w (x1 - x0) (y1 - y0) (z1 - z0)))
                           (vec_x (scale fg)),
                 vec_z = jmul (Num (spec_scaleFactor h w (x1 - x0) (y1 - y0) (z1 - z0)))
                           (vec_x (scale fg))\<rparr>"
  using assms by (simp add: scaleToFit_bbox fit_factor_finite result_scale_def uniform_def)

text \<open>
  Claim C8 at a concrete input: the example, with extents 2, 4 and 1 and targets 1 and 1;
  the multiplier is \<open>min (1 / 4) (1 / 2) = 1 / 4\<close> and the scale goes from 1 to 1/4 on
  each axis.
\<close>

theorem scaleToFit_multiplier_witness:
  "spec_scaleFactor 1 1 (2 - 0) (4 - 0) (1 - 0) = 1 / 4 \<and>
   result_scale (scaleToFit example_host example_component)
     = Some \<lparr>vec_x = Num (1 / 4), vec_y = Num (1 / 4), vec_z = Num (1 / 4)\<rparr>"
  using scaleToFit_multiplier [of example_component _ example_host example_bbox 0 2 0 4 0 1 1 1]
  by (simp add: example_forceGraph)
     (simp add: example_defs spec_scaleFactor_def)

section \<open>The running flag (C4)\<close>




section \<open>When the graph is fitted (C5)\<close>

text \<open>
  Claim C5, refuted as stated. The engine of the example never stops, so it has not
  converged. A frame of the running component fits the graph while a drag is in
  progress, and after the graph has been built two consecutive frames fit it twice.
\<close>

theorem drag_counterexample:
  "new_calls [] (tick example_host 0 (example_component\<lparr>running := True, isDragging := True\<rparr>))
     = Some [TickFrame, CameraUpdateMatrices, TraverseVisible, ScaleToFit, UpdateMatrix] \<and>
   new_calls [] (run example_host [FinishUpdate, Frame 0, Frame 1] example_component)
     = Some [GetInteractors, GetIntersection 7, TickFrame, CameraUpdateMatrices,
             TraverseVisible, ScaleToFit, UpdateMatrix,
             GetInteractors, GetIntersection 7, TickFrame, CameraUpdateMatrices,
             TraverseVisible, ScaleToFit, UpdateMatrix]"
  by (simp add: example_defs handler_defs)

text \<open>
  Claim C5, amended: a frame of a component that has its graph object returns. It invokes
  \<open>scaleToFit\<close> exactly once when it is not cut short by the networking test and either
  the component is running at the start of the frame or the engine stops during the frame
  with the engine-stop handler registered (then the handler invokes it), and not at all
  otherwise. Whether a drag is in progress plays no part, and a frame in which the engine
  stops with the handler registered fits the graph also when the flag is not set.
\<close>

theorem tick_scaleToFit_count:
  assumes "forceGraph c = Some fg"
  shows "\<exists>c' cs. tick H t c = Inr c' \<and> calls c' = calls c @ cs \<and>
           count_list cs ScaleToFit =
             (if isNetworked c \<and> (\<not> netEntity c \<or> stateSync c = None) then 0
              else if running c \<or> (snd (tickFrame H fg) \<and> onEngineStop_set fg) then 1
              else 0)"
proof (cases "isNetworked c \<and> (\<not> netEntity c \<or> stateSync c = None)")
  case True
  then have "tick H t c = Inr (interaction_phase H c)"
    by (auto simp: tick_def Let_def interaction_phase_fields)
  moreover obtain cs where "calls (interaction_phase H c) = calls c @ cs"
    and "count_list cs ScaleToFit = 0"
    using interaction_phase_count by blast
  ultimately show ?thesis using True by auto
next
  case gate: False
  obtain fg1 stopped where tf: "tickFrame H fg = (fg1, stopped)"
    by (cases "tickFrame H fg")
  from tick_open [OF assms gate tf, of t] obtain c3 cs3
    where c3: "forceGraph c3 = Some fg1" "running c3 = running c"
      "calls c3 = calls c @ cs3" "count_list cs3 ScaleToFit = 0"
      "tick H t c = bind_exn (if stopped \<and> onEngineStop_set fg
                              then onEngineStop_handler H c3 else Inr c3) (render_phase H t)"
    by blast
  show ?thesis
  proof (cases "stopped \<and> onEngineStop_set fg")
    case True
    from onEngineStop_handler_returns [OF c3(1), of H] obtain c4 fg4
      where c4: "onEngineStop_handler H c3 = Inr c4" "forceGraph c4 = Some fg4"
      by blast
    from onEngineStop_handler_count [OF c4(1)] obtain cs4
      where cs4: "\<not> running c4" "calls c4 = calls c3 @ cs4" "count_list cs4 ScaleToFit = 1"
      by blast
    from render_phase_returns [OF c4(2), of H t] obtain c'
      where c': "render_phase H t c4 = Inr c'"
      by blast
    from render_phase_count [OF c'] cs4(1) obtain cs5
      where cs5: "calls c' = calls c4 @ cs5" "count_list cs5 ScaleToFit = 0"
      by auto
    have "tick H t c = Inr c'"
      using c3(5) True c4(1) c' by (simp add: bind_exn_def)
    moreover have "calls c' = calls c @ (cs3 @ cs4 @ cs5)"
      using cs5(1) cs4(2) c3(3) by simp
    moreover have "count_list (cs3 @ cs4 @ cs5) ScaleToFit = 1"
      using c3(4) cs4(3) cs5(2) by (simp add: count_list_app)
    moreover have "(if isNetworked c \<and> (\<not> netEntity c \<or> stateSync c = None) then 0
              else if running c \<or> (snd (tickFrame H fg) \<and> onEngineStop_set fg) then 1
              else 0) = (1::nat)"
      using True tf gate by simp
    ultimately show ?thesis by metis
  next
    case False
    from render_phase_returns [OF c3(1), of H t] obtain c'
      where c': "render_phase H t c3 = Inr c'"
      by blast
    from render_phase_count [OF c'] c3(2) obtain cs5
      where cs5: "calls c' = calls c3 @ cs5"
        "count_list cs5 ScaleToFit = (if running c then 1 else 0)"
      by auto
    have "tick H t c = Inr c'"
      using c3(5) False c' by (simp add: bind_exn_def)
    moreover have "calls c' = calls c @ (cs3 @ cs5)"
      using cs5(1) c3(3) by simp
    moreover have "count_list (cs3 @ cs5) ScaleToFit
        = (if isNetworked c \<and> (\<not> netEntity c \<or> stateSync c = None) then 0
              else if running c \<or> (snd (tickFrame H fg) \<and> onEngineStop_set fg) then 1
              else 0)"
      using c3(4) cs5(2) False tf gate by (simp add: count_list_app)
    ultimately show ?thesis by blast
  qed
qed

text \<open>
  Claim C5, the amended statement at concrete inputs: the running example component with
  a drag in progress, in the host whose engine does not stop, where the frame invokes
  \<open>scaleToFit\<close> once; the stopped component in a host whose engine stops in the frame,
  as it does after a reheat, where the frame invokes it once although the flag is not
  set; and the stopped component in the host whose engine does not stop, where the frame
  does not invoke it.
\<close>

theorem tick_scaleToFit_count_witness:
  "(\<exists>c' cs. tick example_host 0 (example_component\<lparr>running := True, isDragging := True\<rparr>) = Inr c' \<and>
     calls c' = [] @ cs \<and> count_list cs ScaleToFit = 1) \<and>
   \<not> running stopped_component \<and>
   (\<exists>c' cs. tick (example_host\<lparr>tickFrame := \<lambda>fg. (fg, True)\<rparr>) 0 stopped_component = Inr c' \<and>
     calls c' = [] @ cs \<and> count_list cs ScaleToFit = 1) \<and>
   (\<exists>c' cs. tick example_host 0 stopped_component = Inr c' \<and>
     calls c' = [] @ cs \<and> count_list cs ScaleToFit = 0)"
proof -
  let ?c = "example_component\<lparr>running := True, isDragging := True\<rparr>"
  have g: "forceGraph ?c =
     Some (example_graph\<lparr>onFinishUpdate_set := True,
             forces := [''charge'' \<mapsto> Num (- 30), ''x'' \<mapsto> Num (1 / 10),
                        ''y'' \<mapsto> Num (1 / 10), ''z'' \<mapsto> Num (1 / 10)]\<rparr>)"
    by (simp add: example_forceGraph)
  have g2: "forceGraph stopped_component = Some built_graph"
    by (simp add: stopped_component_def)
  from tick_scaleToFit_count [OF g, of example_host 0]
    tick_scaleToFit_count [OF g2, of "example_host\<lparr>tickFrame := \<lambda>fg. (fg, True)\<rparr>" 0]
    tick_scaleToFit_count [OF g2, of example_host 0]
  show ?thesis
    by (simp add: example_defs stopped_component_def built_graph_def)
qed

section \<open>Placeholder and label (C6)\<close>

text \<open>
  Claim C6, refuted as stated. A node fresh from \<open>makeHTMLText\<close> has its placeholder. In
  the next frame the placeholder is turned by 0.03 and, in the same frame, the tick is
  forwarded to the label application although the placeholder has not been cleared. And
  when the engine makes the object of a node a second time, after the label of the first
  has become ready, the node gets a new placeholder and goes from placeholder to label a
  second time.
\<close>

theorem placeholder_counterexample:
  "node_box (snd (makeHTMLText example_component (example_node ''a''))) = Some (Num 0) \<and>
   node_box (fst (tickNode (0, 0, 0, 1) 5
                    (snd (makeHTMLText example_component (example_node ''a'')))))
     = Some (Num (3 / 100)) \<and>
   snd (tickNode (0, 0, 0, 1) 5 (snd (makeHTMLText example_component (example_node ''a''))))
     = [HtmlTick ''a'' 5] \<and>
   transitions example_component [Build, Ready, Build, Ready] (example_node ''a'') = 2"
  by (simp add: makeHTMLText_def waitForReady_then_def tickNode_def node_step_def
      example_node_def Let_def)

text \<open>
  Claim C6, amended. A frame of a component that has its graph object returns. When it is
  cut short by the networking test it visits no node: the graph is as before and no tick
  is forwarded. Otherwise, for the nodes the engine holds after its own frame, every
  placeholder is turned by 0.03, no placeholder is cleared or created, and the refresh
  tick is forwarded to the label application of every node that has one, whether or not
  its placeholder is still there. \<open>makeHTMLText\<close> gives a node both a placeholder and a
  label application, so ticks are forwarded before the placeholder is cleared as well as
  after. The transition from placeholder to label happens at most once for each time the
  engine makes the node's object, not once per node: only the continuation of
  \<open>waitForReady\<close> clears a placeholder, and making the object again gives the node a
  new one.
\<close>

theorem node_content_frames:
  assumes "forceGraph c = Some fg" and "tickFrame H fg = (fg1, stopped)"
  shows "(\<exists>c' cs. tick H t c = Inr c' \<and> calls c' = calls c @ cs \<and>
            (if isNetworked c \<and> (\<not> netEntity c \<or> stateSync c = None)
             then forceGraph c' = Some fg \<and> filter is_HtmlTick cs = []
             else (\<exists>fg'. forceGraph c' = Some fg' \<and>
                    map node_box (nodes fg') =
                      map (\<lambda>n. map_option (\<lambda>r. jadd r (Num (3 / 100))) (node_box n))
                        (nodes fg1) \<and>
                    map htmlGenerator (nodes fg') = map htmlGenerator (nodes fg1) \<and>
                    filter is_HtmlTick cs =
                      concat (map (\<lambda>n. if htmlGenerator n = None then []
                                        else [HtmlTick (node_id n) t]) (nodes fg1))))) \<and>
         node_box (node_step c Build n) = Some (Num 0) \<and>
         htmlGenerator (node_step c Build n) \<noteq> None \<and>
         node_box (node_step c Ready n) = (if node_threeObj n = None then node_box n else None) \<and>
         (htmlGenerator (node_step c Ready n) = None) = (htmlGenerator n = None) \<and>
         transitions c evs n \<le> count_list evs Build + (if node_box n = None then 0 else 1)"
proof -
  have frame: "\<exists>c' cs. tick H t c = Inr c' \<and> calls c' = calls c @ cs \<and>
            (if isNetworked c \<and> (\<not> netEntity c \<or> stateSync c = None)
             then forceGraph c' = Some fg \<and> filter is_HtmlTick cs = []
             else (\<exists>fg'. forceGraph c' = Some fg' \<and>
                    map node_box (nodes fg') =
                      map (\<lambda>n. map_option (\<lambda>r. jadd r (Num (3 / 100))) (node_box n))
                        (nodes fg1) \<and>
                    map htmlGenerator (nodes fg') = map htmlGenerator (nodes fg1) \<and>
                    filter is_HtmlTick cs =
                      concat (map (\<lambda>n. if htmlGenerator n = None then []
                                        else [HtmlTick (node_id n) t]) (nodes fg1))))"
  proof (cases "isNetworked c \<and> (\<not> netEntity c \<or> stateSync c = None)")
    case True
    then have "tick H t c = Inr (interaction_phase H c)"
      by (auto simp: tick_def Let_def interaction_phase_fields)
    moreover obtain cs where "calls (interaction_phase H c) = calls c @ cs"
      and "filter is_HtmlTick cs = []"
      using interaction_phase_count by blast
    moreover have "forceGraph (interaction_phase H c) = Some fg"
      using assms(1) by (simp add: interaction_phase_fields)
    ultimately show ?thesis using True by auto
  next
    case False
    from tick_nodes [OF assms(1) False assms(2), of t] obtain c' fg' cs q
      where 1: "tick H t c = Inr c'" "forceGraph c' = Some fg'"
        "nodes fg' = fst (forEach_node q t (nodes fg1))"
        "calls c' = calls c @ cs"
        "filter is_HtmlTick cs = snd (forEach_node q t (nodes fg1))"
      by blast
    have "map node_box (nodes fg') =
        map (\<lambda>n. map_option (\<lambda>r. jadd r (Num (3 / 100))) (node_box n)) (nodes fg1)"
      and "map htmlGenerator (nodes fg') = map htmlGenerator (nodes fg1)"
      and "filter is_HtmlTick cs =
        concat (map (\<lambda>n. if htmlGenerator n = None then []
                          else [HtmlTick (node_id n) t]) (nodes fg1))"
      using 1(3,5) by (simp_all add: forEach_node_box forEach_node_gen forEach_node_calls)
    with 1(1,2,4) False show ?thesis by auto
  qed
  have gen: "htmlGenerator (node_step c Build n) \<noteq> None"
    "(htmlGenerator (node_step c Ready n) = None) = (htmlGenerator n = None)"
    by (auto simp: node_step_def makeHTMLText_def waitForReady_then_def Let_def
        split: option.splits)
  from frame gen node_step_box(1,2) [of c n] transitions_bound [of c evs n]
  show ?thesis by blast
qed

text \<open>
  Claim C6, the amended statement at a concrete input: a frame of the stopped component
  over two nodes, the first with its placeholder, the second after its label has become
  ready. The first placeholder is turned, the second node has none, and both labels are
  ticked. A node whose object is made once goes from placeholder to label once, however
  often it is visited and however often its label reports ready.
\<close>

theorem node_content_frames_witness:
  "map node_box label_nodes = [Some (Num 0), None] \<and>
   (\<exists>c' fg'. tick example_host 5 label_component = Inr c' \<and> forceGraph c' = Some fg' \<and>
      map node_box (nodes fg') = [Some (Num (3 / 100)), None] \<and>
      filter is_HtmlTick (calls c') = [HtmlTick ''a'' 5, HtmlTick ''b'' 5]) \<and>
   transitions example_component
     [Build, Visit (0, 0, 0, 1) 5, Ready, Visit (0, 0, 0, 1) 6, Ready] (example_node ''a'') = 1"
proof -
  have g: "forceGraph label_component = Some (built_graph\<lparr>nodes := label_nodes\<rparr>)"
    by (simp add: label_component_def)
  have tf: "tickFrame example_host (built_graph\<lparr>nodes := label_nodes\<rparr>)
      = (built_graph\<lparr>nodes := label_nodes\<rparr>, False)"
    by (simp add: example_host_def)
  have ns: "map node_box label_nodes = [Some (Num 0), None]"
    by (simp add: label_nodes_def node_step_def makeHTMLText_def waitForReady_then_def
        example_node_def Let_def)
  have tr: "transitions example_component
     [Build, Visit (0, 0, 0, 1) 5, Ready, Visit (0, 0, 0, 1) 6, Ready] (example_node ''a'') = 1"
    by (simp add: makeHTMLText_def waitForReady_then_def tickNode_def node_step_def
        example_node_def Let_def)
  have cl: "calls label_component = []" and nw: "\<not> isNetworked label_component"
    by (simp_all add: label_component_def example_defs)
  from node_content_frames [OF g tf, of 5 "example_node ''a''" "[]"] nw cl
  obtain c' cs fg' where 1: "tick example_host 5 label_component = Inr c'"
    "calls c' = cs" "forceGraph c' = Some fg'"
    "map node_box (nodes fg') =
       map (\<lambda>n. map_option (\<lambda>r. jadd r (Num (3 / 100))) (node_box n)) label_nodes"
    "filter is_HtmlTick cs =
       concat (map (\<lambda>n. if htmlGenerator n = None then []
                         else [HtmlTick (node_id n) 5]) label_nodes)"
    by auto
  have "map node_box (nodes fg') = [Some (Num (3 / 100)), None]"
    using 1(4) by (simp add: label_nodes_def node_step_def makeHTMLText_def
        waitForReady_then_def example_node_def Let_def)
  moreover have "filter is_HtmlTick (calls c') = [HtmlTick ''a'' 5, HtmlTick ''b'' 5]"
    using 1(2,5) by (simp add: label_nodes_def node_step_def makeHTMLText_def
        waitForReady_then_def example_node_def Let_def)
  ultimately have "\<exists>c' fg'. tick example_host 5 label_component = Inr c' \<and>
      forceGraph c' = Some fg' \<and>
      map node_box (nodes fg') = [Some (Num (3 / 100)), None] \<and>
      filter is_HtmlTick (calls c') = [HtmlTick ''a'' 5, HtmlTick ''b'' 5]"
    using 1(1,3) by (intro exI conjI)
  with ns tr show ?thesis by (intro conjI)
qed

section \<open>A click that hits nothing (C7)\<close>

text \<open>
  Claim C7: when the intersection test of a click finds nothing, handling the click
  raises nothing; the recorded intersection is empty (a former one is overwritten), the
  event is recorded, one warning is logged, and nothing else changes.
\<close>

theorem clicked_miss:
  assumes "getIntersection H (evt_object3D evt) [evt_target evt] = None"
  shows "fire H (Click evt) c =
           Inr (c\<lparr>clickIntersection := None, clickEvent := Some evt,
                  calls := calls c @
                    [ConsoleWarn ''click didn't hit anything; shouldn't happen'']\<rparr>)"
  using assms by (simp add: fire_def clicked_def Let_def)

text \<open>
  Claim C7 at a concrete input: a click in the example host, whose intersection test
  finds nothing, on a component that still holds the hit of an earlier click.
\<close>

theorem clicked_miss_witness:
  "getIntersection example_host 3 [4] = None \<and>
   fire example_host (Click \<lparr>evt_object3D = 3, evt_target = 4\<rparr>)
     (example_component\<lparr>clickIntersection := Some (Hit 9)\<rparr>) =
     Inr (example_component
            \<lparr>clickIntersection := None,
             clickEvent := Some \<lparr>evt_object3D = 3, evt_target = 4\<rparr>,
             calls := [ConsoleWarn ''click didn't hit anything; shouldn't happen'']\<rparr>)"
  using clicked_miss [of example_host "\<lparr>evt_object3D = 3, evt_target = 4\<rparr>"
      "example_component\<lparr>clickIntersection := Some (Hit 9)\<rparr>"]
  by (simp add: example_defs)

section \<open>The accessor parser (C9)\<close>




section \<open>A networked component that is not set up yet (C10)\<close>

text \<open>
  Claim C10: when the component is networked and its networked entity or its state-sync
  object is missing, a frame returns after the interaction phase without raising: the
  component is as before except that the trace has grown by calls of that phase only, the
  request for the interactors and intersection tests. So the engine is not stepped, no
  orientation is computed, no node is ticked and the graph is not fitted.
\<close>

theorem tick_networked_early_return:
  assumes "isNetworked c" and "\<not> netEntity c \<or> stateSync c = None"
  shows "\<exists>cs. tick H t c = Inr (c\<lparr>calls := calls c @ cs\<rparr>) \<and>
              (\<forall>x \<in> set cs. x = GetInteractors \<or> (\<exists>i. x = GetIntersection i))"
proof -
  have "tick H t c = Inr (interaction_phase H c)"
    using assms by (auto simp: tick_def Let_def interaction_phase_fields)
  with interaction_phase_calls [of H c] show ?thesis by auto
qed

text \<open>
  Claim C10 at a concrete input: the example component, networked, running and without
  a networked entity.
\<close>

theorem tick_networked_early_return_witness:
  "isNetworked (example_component\<lparr>isNetworked := True, running := True\<rparr>) \<and>
   \<not> netEntity (example_component\<lparr>isNetworked := True, running := True\<rparr>) \<and>
   (\<exists>cs. tick example_host 0 (example_component\<lparr>isNetworked := True, running := True\<rparr>)
          = Inr (example_component\<lparr>isNetworked := True, running := True, calls := [] @ cs\<rparr>) \<and>
        (\<forall>x \<in> set cs. x = GetInteractors \<or> (\<exists>i. x = GetIntersection i)))"
  using tick_networked_early_return
    [of "example_component\<lparr>isNetworked := True, running := True\<rparr>" example_host 0]
  by (simp add: example_defs)

end
